theory Spec2Isabelle
  imports Complex_Main "HOL-Library.List_Lexorder" "HOL-Library.Char_ord"
    "HOL-Library.Product_Lexorder" "HOL-Library.Multiset" "HOL-Library.AList"
begin

section \<open>Conventions of the embedding\<close>

text \<open>
  The vector database is written in Python. Its floats are modelled as \<^typ>\<open>real\<close>
  (no rounding, no NaN, no infinities), its unbounded integers as \<^typ>\<open>int\<close>, its
  strings as \<^typ>\<open>string\<close>, ordered lexicographically by character code as Python orders
  them. Every exception that the modelled code can raise is a value of the type
  \<open>error\<close>; a function that can raise returns \<open>error + 'a\<close> with \<open>Inl\<close> for the raise.
\<close>

datatype error =
    ResourceNotFoundException string string
  | DimensionalityMismatchException int int
  | InvalidMetricException string string "string list"
  | InvalidAlgorithmException string "string list"
  | ValueError string
  | ZeroDivisionError
  | IndexError
  | KeyError string
  | AttributeError
  | TypeError
  | ValidationError
  | JSONDecodeError

section \<open>Vector math (app/vector\_index/base.py)\<close>

text \<open>
  \<^verbatim>\<open>dot(a, b) = sum(x * y for x, y in zip(a, b))\<close>: \<^verbatim>\<open>zip\<close> stops at the shorter
  argument, as \<^const>\<open>zip\<close> does. None of the four functions has a raising branch.
\<close>

definition dot :: "real list \<Rightarrow> real list \<Rightarrow> real" where
  "dot a b = sum_list (map (\<lambda>(x, y). x * y) (zip a b))"

definition norm_vec :: "real list \<Rightarrow> real" where
  "norm_vec a = sqrt (sum_list (map (\<lambda>x. x * x) a))"

definition cosine_similarity :: "real list \<Rightarrow> real list \<Rightarrow> real" where
  "cosine_similarity a b =
     (let na = norm_vec a; nb = norm_vec b
      in if na = 0 \<or> nb = 0 then 0 else dot a b / (na * nb))"

definition euclidean_distance :: "real list \<Rightarrow> real list \<Rightarrow> real" where
  "euclidean_distance a b = sqrt (sum_list (map (\<lambda>(x, y). (x - y) ^ 2) (zip a b)))"

section \<open>Search overfetch (app/services/index\_service.py, app/core/constants.py)\<close>

definition DEFAULT_SEARCH_MULTIPLIER :: int where
  "DEFAULT_SEARCH_MULTIPLIER = 3"

definition MAX_SEARCH_BUFFER :: int where
  "MAX_SEARCH_BUFFER = 50"

definition calculate_query_k :: "int \<Rightarrow> bool \<Rightarrow> int" where
  "calculate_query_k k has_filters =
     (let multiplier = (if has_filters then DEFAULT_SEARCH_MULTIPLIER * 2
                        else DEFAULT_SEARCH_MULTIPLIER);
          buffer = (if has_filters then MAX_SEARCH_BUFFER * 2 else MAX_SEARCH_BUFFER)
      in max k (min (k * multiplier) (k + buffer)))"

section \<open>Entities and the in-memory store (app/domain/models/entities.py, app/repositories/memory.py)\<close>

text \<open>
  A Python \<^verbatim>\<open>dict[str, str]\<close> of metadata is an association list with distinct keys, in
  insertion order. Identifiers come from \<^verbatim>\<open>uuid4()\<close>; the model takes the fresh
  identifier as an argument of the creating operation.
\<close>

type_synonym metadata = "(string \<times> string) list"

record library =
  lib_id :: string
  lib_name :: string
  lib_description :: "string option"
  lib_metadata :: metadata
  embedding_dim :: "int option"

record document =
  doc_id :: string
  library_id :: string
  title :: string
  doc_description :: "string option"
  doc_metadata :: metadata

record chunk =
  chunk_id :: string
  document_id :: string
  chunk_text :: string
  embedding :: "real list"
  chunk_metadata :: metadata

text \<open>
  The three tables are Python dicts from identifier to record. Every write of memory.py
  stores a record under its own identifier (\<^verbatim>\<open>self._chunks[chunk.id] = chunk\<close>,
  \<^verbatim>\<open>{c["id"]: Chunk(**c) for c in ...}\<close>) and no code assigns to an identifier after
  construction, so a table is modelled as the list of its records in the dict's insertion
  order, the record's identifier being its key. Assigning to an existing key keeps the
  key's position; a new key goes to the end. The reader-writer lock is not modelled: the
  operations are taken one at a time.
\<close>

fun upsert :: "('e \<Rightarrow> string) \<Rightarrow> 'e \<Rightarrow> 'e list \<Rightarrow> 'e list" where
  "upsert key e [] = [e]"
| "upsert key e (x # xs) = (if key x = key e then e # xs else x # upsert key e xs)"

definition lookup :: "('e \<Rightarrow> string) \<Rightarrow> string \<Rightarrow> 'e list \<Rightarrow> 'e option" where
  "lookup key k xs = find (\<lambda>x. key x = k) xs"

record store =
  libraries :: "library list"
  documents :: "document list"
  chunks :: "chunk list"

definition empty_store :: store where
  "empty_store = \<lparr>libraries = [], documents = [], chunks = []\<rparr>"

definition repo_create_library :: "store \<Rightarrow> library \<Rightarrow> store" where
  "repo_create_library s l = s\<lparr>libraries := upsert lib_id l (libraries s)\<rparr>"

definition repo_get_library :: "store \<Rightarrow> string \<Rightarrow> library option" where
  "repo_get_library s k = lookup lib_id k (libraries s)"

definition repo_list_libraries :: "store \<Rightarrow> library list" where
  "repo_list_libraries s = libraries s"

definition repo_update_library :: "store \<Rightarrow> library \<Rightarrow> store" where
  "repo_update_library s l = s\<lparr>libraries := upsert lib_id l (libraries s)\<rparr>"

definition repo_delete_library :: "store \<Rightarrow> string \<Rightarrow> store" where
  "repo_delete_library s k =
     (let doc_ids = map doc_id (filter (\<lambda>d. library_id d = k) (documents s));
          chunks_to_delete =
            map chunk_id (filter (\<lambda>c. document_id c \<in> set doc_ids) (chunks s))
      in s\<lparr>chunks := filter (\<lambda>c. chunk_id c \<notin> set chunks_to_delete) (chunks s),
            documents := filter (\<lambda>d. doc_id d \<notin> set doc_ids) (documents s),
            libraries := filter (\<lambda>l. lib_id l \<noteq> k) (libraries s)\<rparr>)"

definition repo_create_document :: "store \<Rightarrow> document \<Rightarrow> store" where
  "repo_create_document s d = s\<lparr>documents := upsert doc_id d (documents s)\<rparr>"

definition repo_get_document :: "store \<Rightarrow> string \<Rightarrow> document option" where
  "repo_get_document s k = lookup doc_id k (documents s)"

definition repo_list_documents :: "store \<Rightarrow> string \<Rightarrow> document list" where
  "repo_list_documents s k = filter (\<lambda>d. library_id d = k) (documents s)"

definition repo_update_document :: "store \<Rightarrow> document \<Rightarrow> store" where
  "repo_update_document s d = s\<lparr>documents := upsert doc_id d (documents s)\<rparr>"

definition repo_delete_document :: "store \<Rightarrow> string \<Rightarrow> store" where
  "repo_delete_document s k =
     (let chunks_to_delete = map chunk_id (filter (\<lambda>c. document_id c = k) (chunks s))
      in s\<lparr>chunks := filter (\<lambda>c. chunk_id c \<notin> set chunks_to_delete) (chunks s),
            documents := filter (\<lambda>d. doc_id d \<noteq> k) (documents s)\<rparr>)"

definition repo_create_chunk :: "store \<Rightarrow> chunk \<Rightarrow> store" where
  "repo_create_chunk s c = s\<lparr>chunks := upsert chunk_id c (chunks s)\<rparr>"

definition repo_get_chunk :: "store \<Rightarrow> string \<Rightarrow> chunk option" where
  "repo_get_chunk s k = lookup chunk_id k (chunks s)"

definition repo_list_chunks :: "store \<Rightarrow> string \<Rightarrow> chunk list" where
  "repo_list_chunks s k =
     (let doc_ids = map doc_id (filter (\<lambda>d. library_id d = k) (documents s))
      in filter (\<lambda>c. document_id c \<in> set doc_ids) (chunks s))"

definition repo_update_chunk :: "store \<Rightarrow> chunk \<Rightarrow> store" where
  "repo_update_chunk s c = s\<lparr>chunks := upsert chunk_id c (chunks s)\<rparr>"

definition repo_delete_chunk :: "store \<Rightarrow> string \<Rightarrow> store" where
  "repo_delete_chunk s k = s\<lparr>chunks := filter (\<lambda>c. chunk_id c \<noteq> k) (chunks s)\<rparr>"

section \<open>Services over the store (app/services/*.py)\<close>

text \<open>
  A service method takes the store and returns its outcome together with the store it
  leaves behind: \<open>Inl e\<close> when it raises \<open>e\<close>, \<open>Inr v\<close> when it returns \<open>v\<close>. The services
  mutate the record object they got from the store and then write it back; no raise lies
  between the first mutation and the write, so the model builds the new record and
  writes it once. \<^verbatim>\<open>metadata or {}\<close> turns \<^verbatim>\<open>None\<close> into the empty dict.
\<close>

type_synonym 'a outcome = "(error + 'a) \<times> store"

definition or_empty :: "metadata option \<Rightarrow> metadata" where
  "or_empty m = (case m of None \<Rightarrow> [] | Some d \<Rightarrow> d)"

definition LibraryService_create_library ::
  "store \<Rightarrow> string \<Rightarrow> string \<Rightarrow> string option \<Rightarrow> metadata option \<Rightarrow> library outcome" where
  "LibraryService_create_library s new_id name description metadata =
     (let library = \<lparr>lib_id = new_id, lib_name = name, lib_description = description,
                      lib_metadata = or_empty metadata, embedding_dim = None\<rparr>
      in (Inr library, repo_create_library s library))"

definition LibraryService_get_library :: "store \<Rightarrow> string \<Rightarrow> error + library" where
  "LibraryService_get_library s k =
     (case repo_get_library s k of
        None \<Rightarrow> Inl (ResourceNotFoundException ''Library'' k)
      | Some library \<Rightarrow> Inr library)"

definition LibraryService_update_library ::
  "store \<Rightarrow> string \<Rightarrow> string option \<Rightarrow> string option \<Rightarrow> metadata option \<Rightarrow> library outcome" where
  "LibraryService_update_library s k name description metadata =
     (case LibraryService_get_library s k of
        Inl e \<Rightarrow> (Inl e, s)
      | Inr library \<Rightarrow>
          (let l1 = (case name of None \<Rightarrow> library | Some n \<Rightarrow> library\<lparr>lib_name := n\<rparr>);
               l2 = (case description of None \<Rightarrow> l1 | Some d \<Rightarrow> l1\<lparr>lib_description := Some d\<rparr>);
               l3 = (case metadata of None \<Rightarrow> l2 | Some m \<Rightarrow> l2\<lparr>lib_metadata := m\<rparr>)
           in (Inr l3, repo_update_library s l3)))"

definition LibraryService_delete_library :: "store \<Rightarrow> string \<Rightarrow> store" where
  "LibraryService_delete_library s k = repo_delete_library s k"

definition DocumentService_create_document ::
  "store \<Rightarrow> string \<Rightarrow> string \<Rightarrow> string \<Rightarrow> string option \<Rightarrow> metadata option \<Rightarrow> document outcome" where
  "DocumentService_create_document s new_id lib ttl description metadata =
     (case repo_get_library s lib of
        None \<Rightarrow> (Inl (ResourceNotFoundException ''Library'' lib), s)
      | Some _ \<Rightarrow>
          (let document = \<lparr>doc_id = new_id, library_id = lib, title = ttl,
                            doc_description = description, doc_metadata = or_empty metadata\<rparr>
           in (Inr document, repo_create_document s document)))"

definition DocumentService_get_document :: "store \<Rightarrow> string \<Rightarrow> error + document" where
  "DocumentService_get_document s k =
     (case repo_get_document s k of
        None \<Rightarrow> Inl (ResourceNotFoundException ''Document'' k)
      | Some document \<Rightarrow> Inr document)"

definition DocumentService_update_document ::
  "store \<Rightarrow> string \<Rightarrow> string option \<Rightarrow> string option \<Rightarrow> metadata option \<Rightarrow> document outcome" where
  "DocumentService_update_document s k ttl description metadata =
     (case DocumentService_get_document s k of
        Inl e \<Rightarrow> (Inl e, s)
      | Inr document \<Rightarrow>
          (let d1 = (case ttl of None \<Rightarrow> document | Some t \<Rightarrow> document\<lparr>title := t\<rparr>);
               d2 = (case description of None \<Rightarrow> d1 | Some d \<Rightarrow> d1\<lparr>doc_description := Some d\<rparr>);
               d3 = (case metadata of None \<Rightarrow> d2 | Some m \<Rightarrow> d2\<lparr>doc_metadata := m\<rparr>)
           in (Inr d3, repo_update_document s d3)))"

definition DocumentService_delete_document :: "store \<Rightarrow> string \<Rightarrow> store" where
  "DocumentService_delete_document s k = repo_delete_document s k"

definition validate_embedding_dimensions :: "store \<Rightarrow> string \<Rightarrow> real list \<Rightarrow> unit outcome" where
  "validate_embedding_dimensions s lib emb =
     (if emb = [] then (Inr (), s)
      else case repo_get_library s lib of
        None \<Rightarrow> (Inr (), s)
      | Some library \<Rightarrow>
          (case embedding_dim library of
             Some d \<Rightarrow>
               if int (length emb) \<noteq> d
               then (Inl (DimensionalityMismatchException d (int (length emb))), s)
               else (Inr (), s)
           | None \<Rightarrow>
               (Inr (), repo_update_library s
                          (library\<lparr>embedding_dim := Some (int (length emb))\<rparr>))))"

definition ChunkService_create_chunk ::
  "store \<Rightarrow> string \<Rightarrow> string \<Rightarrow> string \<Rightarrow> string \<Rightarrow> real list \<Rightarrow> metadata option
     \<Rightarrow> chunk outcome" where
  "ChunkService_create_chunk s new_id lib doc txt emb metadata =
     (case repo_get_document s doc of
        None \<Rightarrow> (Inl (ResourceNotFoundException ''Document'' doc), s)
      | Some document \<Rightarrow>
          if library_id document \<noteq> lib
          then (Inl (ResourceNotFoundException ''Document'' doc), s)
          else (case validate_embedding_dimensions s lib emb of
                  (Inl e, s') \<Rightarrow> (Inl e, s')
                | (Inr _, s') \<Rightarrow>
                    (let c = \<lparr>chunk_id = new_id, document_id = doc, chunk_text = txt,
                               embedding = emb, chunk_metadata = or_empty metadata\<rparr>
                     in (Inr c, repo_create_chunk s' c))))"

definition ChunkService_get_chunk :: "store \<Rightarrow> string \<Rightarrow> error + chunk" where
  "ChunkService_get_chunk s k =
     (case repo_get_chunk s k of
        None \<Rightarrow> Inl (ResourceNotFoundException ''Chunk'' k)
      | Some c \<Rightarrow> Inr c)"

definition ChunkService_update_chunk ::
  "store \<Rightarrow> string \<Rightarrow> string option \<Rightarrow> real list option \<Rightarrow> metadata option \<Rightarrow> chunk outcome" where
  "ChunkService_update_chunk s k txt emb metadata =
     (case ChunkService_get_chunk s k of
        Inl e \<Rightarrow> (Inl e, s)
      | Inr c \<Rightarrow>
          (case (case emb of
                   None \<Rightarrow> (Inr c, s)
                 | Some v \<Rightarrow>
                     (case (case repo_get_document s (document_id c) of
                              None \<Rightarrow> (Inr (), s)
                            | Some document \<Rightarrow>
                                validate_embedding_dimensions s (library_id document) v) of
                        (Inl e, s') \<Rightarrow> (Inl e, s')
                      | (Inr _, s') \<Rightarrow> (Inr (c\<lparr>embedding := v\<rparr>), s'))) of
             (Inl e, s') \<Rightarrow> (Inl e, s')
           | (Inr c1, s') \<Rightarrow>
               (let c2 = (case txt of None \<Rightarrow> c1 | Some t \<Rightarrow> c1\<lparr>chunk_text := t\<rparr>);
                    c3 = (case metadata of None \<Rightarrow> c2 | Some m \<Rightarrow> c2\<lparr>chunk_metadata := m\<rparr>)
                in (Inr c3, repo_update_chunk s' c3))))"

definition ChunkService_delete_chunk :: "store \<Rightarrow> string \<Rightarrow> store" where
  "ChunkService_delete_chunk s k = repo_delete_chunk s k"

section \<open>Referential integrity and an example state\<close>

text \<open>
  The two foreign-key invariants of the data model: every document's \<open>library_id\<close> names
  a stored library, and every chunk's \<open>document_id\<close> names a stored document.
\<close>

definition referential_integrity :: "store \<Rightarrow> bool" where
  "referential_integrity s =
     (list_all (\<lambda>d. list_ex (\<lambda>l. lib_id l = library_id d) (libraries s)) (documents s) \<and>
      list_all (\<lambda>c. list_ex (\<lambda>d. doc_id d = document_id c) (documents s)) (chunks s))"

text \<open>
  The store after the specification's scenario S1: library \<open>L\<close>, document \<open>D\<close> under it,
  chunks \<open>C1 = ("a", [0, 1, 0])\<close> and \<open>C2 = ("b", [1, 0, 0])\<close>; the first chunk has frozen
  the library's dimensionality at 3.
\<close>

definition S1_library :: library where
  "S1_library = \<lparr>lib_id = ''L'', lib_name = ''lib'', lib_description = None,
                  lib_metadata = [], embedding_dim = Some 3\<rparr>"

definition S1_document :: document where
  "S1_document = \<lparr>doc_id = ''D'', library_id = ''L'', title = ''doc'',
                   doc_description = None, doc_metadata = []\<rparr>"

definition S1_chunk1 :: chunk where
  "S1_chunk1 = \<lparr>chunk_id = ''C1'', document_id = ''D'', chunk_text = ''a'',
                 embedding = [0, 1, 0], chunk_metadata = []\<rparr>"

definition S1_chunk2 :: chunk where
  "S1_chunk2 = \<lparr>chunk_id = ''C2'', document_id = ''D'', chunk_text = ''b'',
                 embedding = [1, 0, 0], chunk_metadata = []\<rparr>"

definition S1_store :: store where
  "S1_store = \<lparr>libraries = [S1_library], documents = [S1_document],
                chunks = [S1_chunk1, S1_chunk2]\<rparr>"

text \<open>
  The store of scenario S1 before its first chunk: the library has no dimensionality yet and
  holds no chunk.
\<close>

definition S0_store :: store where
  "S0_store = \<lparr>libraries = [S1_library\<lparr>embedding_dim := None\<rparr>], documents = [S1_document],
                chunks = []\<rparr>"

section \<open>The index contract's shared checks (app/vector\_index/base.py)\<close>

definition validate_inputs :: "real list list \<Rightarrow> string list \<Rightarrow> error + unit" where
  "validate_inputs vectors ids =
     (if length vectors \<noteq> length ids
      then Inl (ValueError ''Vectors and ids must have the same length'')
      else if vectors \<noteq> [] \<and> list_ex (\<lambda>vec. length vec \<noteq> length (hd vectors)) vectors
      then Inl (ValueError ''All vectors must have the same dimensionality'')
      else Inr ())"

definition validate_query_dim :: "real list \<Rightarrow> real list list \<Rightarrow> error + unit" where
  "validate_query_dim vector vectors =
     (if vectors \<noteq> [] \<and> length vector \<noteq> length (hd vectors)
      then Inl (ValueError ''Query vector dimensionality mismatch'')
      else Inr ())"

text \<open>
  \<^verbatim>\<open>xs.sort(key=f, reverse=True)\<close> reverses the list, sorts it stably in ascending order
  of the key and reverses the result, so elements with equal keys keep their order.
\<close>

definition sort_reverse :: "('a \<Rightarrow> 'k::linorder) \<Rightarrow> 'a list \<Rightarrow> 'a list" where
  "sort_reverse f xs = rev (sort_key f (rev xs))"

section \<open>Linear index (app/vector\_index/linear.py)\<close>

datatype DistanceMetric = COSINE | EUCLIDEAN

fun DistanceMetric_value :: "DistanceMetric \<Rightarrow> string" where
  "DistanceMetric_value COSINE = ''cosine''"
| "DistanceMetric_value EUCLIDEAN = ''euclidean''"

text \<open>The enum constructor \<^verbatim>\<open>DistanceMetric(s)\<close> raises \<^verbatim>\<open>ValueError\<close> on an unknown value.\<close>

definition DistanceMetric_of :: "string \<Rightarrow> error + DistanceMetric" where
  "DistanceMetric_of s =
     (if s = ''cosine'' then Inr COSINE
      else if s = ''euclidean'' then Inr EUCLIDEAN
      else Inl (ValueError ''not a valid DistanceMetric''))"

record LinearIndex =
  lin_metric :: string
  lin_vectors :: "real list list"
  lin_ids :: "string list"

definition LinearIndex_init :: "string \<Rightarrow> error + LinearIndex" where
  "LinearIndex_init metric =
     (case DistanceMetric_of metric of
        Inl e \<Rightarrow> Inl e
      | Inr m \<Rightarrow> Inr \<lparr>lin_metric = DistanceMetric_value m, lin_vectors = [], lin_ids = []\<rparr>)"

text \<open>
  A \<^verbatim>\<open>build\<close> returns its outcome and the index object as the call leaves it, also when
  it raises.
\<close>

definition LinearIndex_build ::
  "LinearIndex \<Rightarrow> real list list \<Rightarrow> string list \<Rightarrow> (error + unit) \<times> LinearIndex" where
  "LinearIndex_build idx vectors ids =
     (case validate_inputs vectors ids of
        Inl e \<Rightarrow> (Inl e, idx)
      | Inr _ \<Rightarrow> (Inr (), idx\<lparr>lin_vectors := vectors, lin_ids := ids\<rparr>))"

definition LinearIndex_query ::
  "LinearIndex \<Rightarrow> real list \<Rightarrow> int \<Rightarrow> error + (string \<times> real) list" where
  "LinearIndex_query idx vector k =
     (if lin_vectors idx = [] \<or> k \<le> 0 then Inr []
      else case validate_query_dim vector (lin_vectors idx) of
        Inl e \<Rightarrow> Inl e
      | Inr _ \<Rightarrow>
          (let scores =
                 (if lin_metric idx = DistanceMetric_value COSINE
                  then map (\<lambda>(cid, vec). (cid, cosine_similarity vector vec))
                         (zip (lin_ids idx) (lin_vectors idx))
                  else map (\<lambda>(cid, vec). (cid, 1 / (1 + euclidean_distance vector vec)))
                         (zip (lin_ids idx) (lin_vectors idx)))
           in Inr (take (nat k) (sort_reverse snd scores))))"

section \<open>KD-tree index (app/vector\_index/kdtree.py)\<close>

text \<open>
  \<^verbatim>\<open>Optional[KDNode]\<close> is the type \<open>kdtree\<close>: \<open>KDNone\<close> is \<^verbatim>\<open>None\<close>, and \<open>KDNode\<close> carries
  the fields \<^verbatim>\<open>point\<close>, \<^verbatim>\<open>point_id\<close>, \<^verbatim>\<open>axis\<close>, \<^verbatim>\<open>left\<close>, \<^verbatim>\<open>right\<close>.
\<close>

datatype kdtree = KDNone | KDNode "real list" string nat kdtree kdtree

text \<open>
  \<^verbatim>\<open>build_kd\<close>: \<^verbatim>\<open>depth % k\<close> raises \<^verbatim>\<open>ZeroDivisionError\<close> for points of length 0; the
  sort key \<^verbatim>\<open>x[0][axis]\<close> raises \<^verbatim>\<open>IndexError\<close> on a point shorter than the first one;
  \<^verbatim>\<open>combined[median]\<close> raises \<^verbatim>\<open>IndexError\<close> when \<^verbatim>\<open>zip\<close> left nothing. The sort is
  stable, as \<^const>\<open>sort_key\<close> is.
\<close>

function build_kd :: "real list list \<Rightarrow> string list \<Rightarrow> nat \<Rightarrow> error + kdtree" where
  "build_kd points ids depth =
     (if points = [] then Inr KDNone
      else if length (hd points) = 0 then Inl ZeroDivisionError
      else if list_ex (\<lambda>x. length (fst x) \<le> depth mod length (hd points)) (zip points ids)
      then Inl IndexError
      else if zip points ids = [] then Inl IndexError
      else
        (let axis = depth mod length (hd points);
             combined = sort_key (\<lambda>x. fst x ! axis) (zip points ids);
             median = length combined div 2
         in case build_kd (map fst (take median combined)) (map snd (take median combined))
                   (depth + 1) of
              Inl e \<Rightarrow> Inl e
            | Inr left \<Rightarrow>
                (case build_kd (map fst (drop (median + 1) combined))
                        (map snd (drop (median + 1) combined)) (depth + 1) of
                   Inl e \<Rightarrow> Inl e
                 | Inr right \<Rightarrow>
                     Inr (KDNode (fst (combined ! median)) (snd (combined ! median)) axis
                            left right))))"
  by pat_completeness auto
termination
proof (relation "measure (\<lambda>(points, ids, depth). length points)", goal_cases)
  case 1
  show ?case by simp
next
  case (2 points ids depth axis combined median)
  have "length combined = length (zip points ids)" using 2 by simp
  moreover have "length (zip points ids) \<noteq> 0" using 2 by (simp del: length_zip zip_eq_Nil_iff)
  moreover have "length (zip points ids) \<le> length points" by simp
  ultimately have "median < length points" using 2 by linarith
  then show ?case by simp
next
  case (3 points ids depth axis combined median left)
  have "length combined = length (zip points ids)" using 3 by simp
  moreover have "length (zip points ids) \<noteq> 0" using 3 by (simp del: length_zip zip_eq_Nil_iff)
  moreover have "length (zip points ids) \<le> length points" by simp
  ultimately have "length combined - (median + 1) < length points" by linarith
  then show ?case using 3 by simp
qed

text \<open>
  The equation of \<open>build_kd\<close> is recursive without a pattern: it is unfolded by hand, never
  by the simplifier.
\<close>

declare build_kd.simps [simp del]

text \<open>
  The heap of \<^verbatim>\<open>kd_query\<close> holds pairs \<^verbatim>\<open>(-dist, point_id)\<close>, compared as Python compares
  tuples (first component, then the identifier). \<^verbatim>\<open>heapq\<close> keeps the list as a binary
  heap; the code observes only its length, its least item \<^verbatim>\<open>heap[0]\<close> and, at the end,
  its sorted contents, which depend on the items only. The model keeps the items in
  ascending order: \<^verbatim>\<open>heappush\<close> inserts in order, \<^verbatim>\<open>heappop\<close> removes the head.
\<close>

type_synonym heap = "(real \<times> string) list"

definition heappush :: "heap \<Rightarrow> real \<times> string \<Rightarrow> heap" where
  "heappush h x = insort x h"

definition heappop :: "heap \<Rightarrow> heap" where
  "heappop h = tl h"

fun kd_query :: "kdtree \<Rightarrow> real list \<Rightarrow> int \<Rightarrow> heap \<Rightarrow> error + heap" where
  "kd_query KDNone target k heap = Inr heap"
| "kd_query (KDNode point pid axis left right) target k heap =
     (let dist = euclidean_distance target point;
          heap1 = heappush heap (- dist, pid);
          heap2 = (if int (length heap1) > k then heappop heap1 else heap1)
      in if length target \<le> axis \<or> length point \<le> axis then Inl IndexError
         else
           (let diff = target ! axis - point ! axis
            in case kd_query (if diff < 0 then left else right) target k heap2 of
                 Inl e \<Rightarrow> Inl e
               | Inr heap3 \<Rightarrow>
                   if int (length heap3) < k
                   then kd_query (if diff < 0 then right else left) target k heap3
                   else if heap3 = [] then Inl IndexError
                   else if \<bar>diff\<bar> < - fst (hd heap3)
                   then kd_query (if diff < 0 then right else left) target k heap3
                   else Inr heap3))"

record KDTreeIndex =
  kd_root :: kdtree
  kd_dim :: nat

definition KDTreeIndex_init :: KDTreeIndex where
  "KDTreeIndex_init = \<lparr>kd_root = KDNone, kd_dim = 0\<rparr>"

definition KDTreeIndex_build ::
  "KDTreeIndex \<Rightarrow> real list list \<Rightarrow> string list \<Rightarrow> (error + unit) \<times> KDTreeIndex" where
  "KDTreeIndex_build idx vectors ids =
     (case validate_inputs vectors ids of
        Inl e \<Rightarrow> (Inl e, idx)
      | Inr _ \<Rightarrow>
          if vectors = [] then (Inr (), idx\<lparr>kd_root := KDNone, kd_dim := 0\<rparr>)
          else (case build_kd vectors ids 0 of
                  Inl e \<Rightarrow> (Inl e, idx\<lparr>kd_dim := length (hd vectors)\<rparr>)
                | Inr t \<Rightarrow> (Inr (), idx\<lparr>kd_dim := length (hd vectors), kd_root := t\<rparr>)))"

definition KDTreeIndex_query ::
  "KDTreeIndex \<Rightarrow> real list \<Rightarrow> int \<Rightarrow> error + (string \<times> real) list" where
  "KDTreeIndex_query idx vector k =
     (if k \<le> 0 then Inr []
      else if kd_dim idx \<noteq> 0 \<and> length vector \<noteq> kd_dim idx
      then Inl (ValueError ''Query vector dimensionality mismatch'')
      else case kd_query (kd_root idx) vector k [] of
        Inl e \<Rightarrow> Inl e
      | Inr heap \<Rightarrow>
          Inr (map (\<lambda>(d, pid). (pid, 1 / (1 + (- d)))) (sort_reverse (\<lambda>x. x) heap)))"

section \<open>LSH index (app/vector\_index/lsh.py)\<close>

text \<open>
  \<^verbatim>\<open>random.Random(seed)\<close> is a deterministic generator outside the repository: the
  model takes the sequence of values that successive calls of \<^verbatim>\<open>rng.gauss(0, 1)\<close> return
  as a function \<open>g\<close> of the call's number. A hash table is a dict from signature to
  bucket, modelled as an association list in insertion order (\<^const>\<open>AList.update\<close>
  assigns to a key in place, \<^const>\<open>map_of\<close> looks a key up). Signatures are Python
  integers with \<^verbatim>\<open>|\<close>, \<^verbatim>\<open>^\<close> and \<^verbatim>\<open><<\<close>.
\<close>

type_synonym bucket = "(string \<times> real list) list"
type_synonym hash_table = "(int \<times> bucket) list"

record LSHIndex =
  num_planes :: int
  num_tables :: int
  tables :: "hash_table list"
  planes :: "real list list list"
  seed :: int
  lsh_dim :: nat

definition LSHIndex_init :: "int \<Rightarrow> int \<Rightarrow> int \<Rightarrow> LSHIndex" where
  "LSHIndex_init np nt sd =
     \<lparr>num_planes = np, num_tables = nt, tables = [], planes = [], seed = sd, lsh_dim = 0\<rparr>"

definition lsh_hash :: "real list \<Rightarrow> real list list \<Rightarrow> int" where
  "lsh_hash vec pls =
     foldl (\<lambda>signature (i, plane).
              if sum_list (map (\<lambda>(v, p). v * p) (zip vec plane)) \<ge> 0
              then or signature (push_bit i 1) else signature)
       0 (enumerate 0 pls)"

text \<open>
  One plane: \<open>dim\<close> draws, then division by their norm, which raises
  \<^verbatim>\<open>ZeroDivisionError\<close> when the norm is 0 and there is a coordinate to divide.
\<close>

definition gen_plane :: "(nat \<Rightarrow> real) \<Rightarrow> nat \<Rightarrow> nat \<Rightarrow> error + real list" where
  "gen_plane g start d =
     (let plane = map g [start..<start + d];
          nrm = sqrt (sum_list (map (\<lambda>x. x * x) plane))
      in if plane \<noteq> [] \<and> nrm = 0 then Inl ZeroDivisionError
         else Inr (map (\<lambda>x. x / nrm) plane))"

fun gen_table_planes :: "(nat \<Rightarrow> real) \<Rightarrow> nat \<Rightarrow> nat \<Rightarrow> nat \<Rightarrow> error + real list list" where
  "gen_table_planes g start d 0 = Inr []"
| "gen_table_planes g start d (Suc n) =
     (case gen_plane g start d of
        Inl e \<Rightarrow> Inl e
      | Inr p \<Rightarrow>
          (case gen_table_planes g (start + d) d n of
             Inl e \<Rightarrow> Inl e
           | Inr ps \<Rightarrow> Inr (p # ps)))"

text \<open>
  The planes of all tables; a table's planes are appended to \<^verbatim>\<open>self._planes\<close> once the
  table is complete, so a raise leaves the tables completed before it.
\<close>

fun gen_planes ::
  "(nat \<Rightarrow> real) \<Rightarrow> nat \<Rightarrow> nat \<Rightarrow> nat \<Rightarrow> nat \<Rightarrow> error option \<times> real list list list" where
  "gen_planes g start d np 0 = (None, [])"
| "gen_planes g start d np (Suc n) =
     (case gen_table_planes g start d np of
        Inl e \<Rightarrow> (Some e, [])
      | Inr t \<Rightarrow>
          (case gen_planes g (start + np * d) d np n of
             (err, ts) \<Rightarrow> (err, t # ts)))"

definition bucket_append :: "hash_table \<Rightarrow> int \<Rightarrow> string \<times> real list \<Rightarrow> hash_table" where
  "bucket_append t signature entry =
     (case map_of t signature of
        None \<Rightarrow> t @ [(signature, [entry])]
      | Some b \<Rightarrow> AList.update signature (b @ [entry]) t)"

definition insert_vector ::
  "real list list list \<Rightarrow> hash_table list \<Rightarrow> real list \<times> string \<Rightarrow> hash_table list" where
  "insert_vector pls ts entry =
     map (\<lambda>(pl, t). bucket_append t (lsh_hash (fst entry) pl) (snd entry, fst entry))
       (zip pls ts)"

definition LSHIndex_build ::
  "(int \<Rightarrow> nat \<Rightarrow> real) \<Rightarrow> LSHIndex \<Rightarrow> real list list \<Rightarrow> string list
     \<Rightarrow> (error + unit) \<times> LSHIndex" where
  "LSHIndex_build gauss idx vectors ids =
     (case validate_inputs vectors ids of
        Inl e \<Rightarrow> (Inl e, idx)
      | Inr _ \<Rightarrow>
          if vectors = [] then (Inr (), idx\<lparr>tables := [], planes := [], lsh_dim := 0\<rparr>)
          else
            (case gen_planes (gauss (seed idx)) 0 (length (hd vectors))
                    (nat (num_planes idx)) (nat (num_tables idx)) of
               (Some e, pls) \<Rightarrow> (Inl e, idx\<lparr>lsh_dim := length (hd vectors), planes := pls\<rparr>)
             | (None, pls) \<Rightarrow>
                 (Inr (), idx\<lparr>lsh_dim := length (hd vectors), planes := pls,
                            tables := foldl (insert_vector pls)
                                        (replicate (nat (num_tables idx)) [])
                                        (zip vectors ids)\<rparr>)))"

definition add_candidates :: "bucket \<Rightarrow> bucket \<Rightarrow> bucket" where
  "add_candidates candidates b =
     foldl (\<lambda>c (vec_id, vec). if vec_id \<in> set (map fst c) then c else c @ [(vec_id, vec)])
       candidates b"

definition probe :: "hash_table \<Rightarrow> int \<Rightarrow> bucket \<Rightarrow> bucket" where
  "probe t signature candidates =
     (case map_of t signature of
        None \<Rightarrow> candidates
      | Some b \<Rightarrow> add_candidates candidates b)"

definition collect_candidates :: "LSHIndex \<Rightarrow> real list \<Rightarrow> bucket" where
  "collect_candidates idx vector =
     foldl (\<lambda>c (pl, t).
              (let signature = lsh_hash vector pl;
                   c1 = probe t signature c
               in foldl (\<lambda>c' bit_flip. probe t (xor signature (push_bit bit_flip 1)) c') c1
                    [0..<nat (min 2 (num_planes idx))]))
       [] (zip (planes idx) (tables idx))"

text \<open>
  \<^verbatim>\<open>self._tables[i]\<close> raises \<^verbatim>\<open>IndexError\<close> when there are fewer tables than plane sets;
  the candidates being local, the raise is decided before the loop.
\<close>

definition LSHIndex_query ::
  "LSHIndex \<Rightarrow> real list \<Rightarrow> int \<Rightarrow> error + (string \<times> real) list" where
  "LSHIndex_query idx vector k =
     (if k \<le> 0 then Inr []
      else if lsh_dim idx \<noteq> 0 \<and> length vector \<noteq> lsh_dim idx
      then Inl (ValueError ''Query vector dimensionality mismatch'')
      else if length (tables idx) < length (planes idx) then Inl IndexError
      else
        (let scores = map (\<lambda>(vec_id, vec). (vec_id, cosine_similarity vector vec))
                        (collect_candidates idx vector)
         in Inr (take (nat k) (sort_reverse snd scores))))"

section \<open>The polymorphic index\<close>

datatype vector_index = Linear LinearIndex | KDTree KDTreeIndex | LSH LSHIndex

fun index_build ::
  "(int \<Rightarrow> nat \<Rightarrow> real) \<Rightarrow> vector_index \<Rightarrow> real list list \<Rightarrow> string list
     \<Rightarrow> (error + unit) \<times> vector_index" where
  "index_build gauss (Linear idx) vectors ids =
     (case LinearIndex_build idx vectors ids of (r, idx') \<Rightarrow> (r, Linear idx'))"
| "index_build gauss (KDTree idx) vectors ids =
     (case KDTreeIndex_build idx vectors ids of (r, idx') \<Rightarrow> (r, KDTree idx'))"
| "index_build gauss (LSH idx) vectors ids =
     (case LSHIndex_build gauss idx vectors ids of (r, idx') \<Rightarrow> (r, LSH idx'))"

fun index_query :: "vector_index \<Rightarrow> real list \<Rightarrow> int \<Rightarrow> error + (string \<times> real) list" where
  "index_query (Linear idx) vector k = LinearIndex_query idx vector k"
| "index_query (KDTree idx) vector k = KDTreeIndex_query idx vector k"
| "index_query (LSH idx) vector k = LSHIndex_query idx vector k"

fun index_metric :: "vector_index \<Rightarrow> string" where
  "index_metric (Linear idx) = lin_metric idx"
| "index_metric (KDTree idx) = DistanceMetric_value EUCLIDEAN"
| "index_metric (LSH idx) = DistanceMetric_value COSINE"

fun index_kind :: "vector_index \<Rightarrow> string" where
  "index_kind (Linear idx) = ''linear''"
| "index_kind (KDTree idx) = ''kdtree''"
| "index_kind (LSH idx) = ''lsh''"

section \<open>Index registry (app/services/index\_service.py, app/core/config.py)\<close>

text \<open>
  The process-wide settings and the random generator are the environment of the
  services. \<^verbatim>\<open>str.lower()\<close> is modelled on ASCII letters.
\<close>

record environment =
  data_dir :: string
  default_metric :: string
  default_index :: string
  cfg_lsh_num_planes :: int
  cfg_lsh_num_tables :: int
  cfg_lsh_seed :: int
  gauss :: "int \<Rightarrow> nat \<Rightarrow> real"

definition lower_char :: "char \<Rightarrow> char" where
  "lower_char c =
     (if CHR ''A'' \<le> c \<and> c \<le> CHR ''Z'' then char_of (of_char c + (32::nat)) else c)"

definition lower :: "string \<Rightarrow> string" where
  "lower s = map lower_char s"

datatype IndexAlgorithm = LINEAR | KDTREE | LSH_ALGORITHM

fun IndexAlgorithm_value :: "IndexAlgorithm \<Rightarrow> string" where
  "IndexAlgorithm_value LINEAR = ''linear''"
| "IndexAlgorithm_value KDTREE = ''kdtree''"
| "IndexAlgorithm_value LSH_ALGORITHM = ''lsh''"

definition IndexAlgorithm_of :: "string \<Rightarrow> error + IndexAlgorithm" where
  "IndexAlgorithm_of s =
     (if s = ''linear'' then Inr LINEAR
      else if s = ''kdtree'' then Inr KDTREE
      else if s = ''lsh'' then Inr LSH_ALGORITHM
      else Inl (ValueError ''not a valid IndexAlgorithm''))"

fun ALGORITHM_METRICS :: "IndexAlgorithm \<Rightarrow> DistanceMetric list" where
  "ALGORITHM_METRICS LINEAR = [COSINE, EUCLIDEAN]"
| "ALGORITHM_METRICS KDTREE = [EUCLIDEAN]"
| "ALGORITHM_METRICS LSH_ALGORITHM = [COSINE]"

record index_meta =
  algorithm :: string
  metric :: string

text \<open>
  The registry's two dicts, keyed by library identifier, as association lists in
  insertion order.
\<close>

record registry =
  indices :: "(string \<times> vector_index) list"
  index_metas :: "(string \<times> index_meta) list"

definition empty_registry :: registry where
  "empty_registry = \<lparr>indices = [], index_metas = []\<rparr>"

definition create_index :: "environment \<Rightarrow> string \<Rightarrow> string \<Rightarrow> error + vector_index" where
  "create_index env alg met =
     (case IndexAlgorithm_of alg of
        Inl _ \<Rightarrow>
          Inl (InvalidAlgorithmException alg
                 (map IndexAlgorithm_value [LINEAR, KDTREE, LSH_ALGORITHM]))
      | Inr algo_enum \<Rightarrow>
          (case DistanceMetric_of met of
             Inl _ \<Rightarrow>
               Inl (InvalidMetricException alg met
                      (map DistanceMetric_value (ALGORITHM_METRICS algo_enum)))
           | Inr metric_enum \<Rightarrow>
               if metric_enum \<notin> set (ALGORITHM_METRICS algo_enum)
               then Inl (InvalidMetricException alg met
                           (map DistanceMetric_value (ALGORITHM_METRICS algo_enum)))
               else (case algo_enum of
                       LINEAR \<Rightarrow>
                         (case LinearIndex_init met of
                            Inl e \<Rightarrow> Inl e
                          | Inr idx \<Rightarrow> Inr (Linear idx))
                     | KDTREE \<Rightarrow> Inr (KDTree KDTreeIndex_init)
                     | LSH_ALGORITHM \<Rightarrow>
                         Inr (LSH (LSHIndex_init (cfg_lsh_num_planes env)
                                     (cfg_lsh_num_tables env) (cfg_lsh_seed env))))))"

definition install_index :: "registry \<Rightarrow> string \<Rightarrow> vector_index \<Rightarrow> registry" where
  "install_index reg lib index =
     reg\<lparr>indices := AList.update lib index (indices reg),
         index_metas := AList.update lib
           \<lparr>algorithm = index_kind index, metric = index_metric index\<rparr> (index_metas reg)\<rparr>"

definition build_index ::
  "environment \<Rightarrow> store \<Rightarrow> registry \<Rightarrow> string \<Rightarrow> string \<Rightarrow> string
     \<Rightarrow> (error + unit) \<times> registry" where
  "build_index env s reg lib alg met =
     (case create_index env (lower alg) (lower met) of
        Inl e \<Rightarrow> (Inl e, reg)
      | Inr index \<Rightarrow>
          (let cs = repo_list_chunks s lib;
               valid_pairs = map (\<lambda>c. (embedding c, chunk_id c))
                               (filter (\<lambda>c. embedding c \<noteq> []) cs);
               built = (if cs \<noteq> []
                        then (if valid_pairs \<noteq> []
                              then index_build (gauss env) index
                                     (map fst valid_pairs) (map snd valid_pairs)
                              else index_build (gauss env) index [] [])
                        else (Inr (), index))
           in case built of
                (Inl e, _) \<Rightarrow> (Inl e, reg)
              | (Inr _, index') \<Rightarrow> (Inr (), install_index reg lib index')))"

definition get_or_create_index ::
  "environment \<Rightarrow> store \<Rightarrow> registry \<Rightarrow> string \<Rightarrow> (error + vector_index option) \<times> registry" where
  "get_or_create_index env s reg lib =
     (case map_of (indices reg) lib of
        Some index \<Rightarrow> (Inr (Some index), reg)
      | None \<Rightarrow>
          (let cs = repo_list_chunks s lib;
               valid_pairs = map (\<lambda>c. (embedding c, chunk_id c))
                               (filter (\<lambda>c. embedding c \<noteq> []) cs)
           in if cs = [] then (Inr None, reg)
              else if valid_pairs = [] then (Inr None, reg)
              else (case LinearIndex_init (default_metric env) of
                      Inl e \<Rightarrow> (Inl e, reg)
                    | Inr idx \<Rightarrow>
                        (case LinearIndex_build idx (map fst valid_pairs) (map snd valid_pairs) of
                           (Inl e, _) \<Rightarrow> (Inl e, reg)
                         | (Inr _, idx') \<Rightarrow>
                             (Inr (Some (Linear idx')), install_index reg lib (Linear idx'))))))"

definition apply_metadata_filters ::
  "store \<Rightarrow> (string \<times> real) list \<Rightarrow> metadata \<Rightarrow> (string \<times> real) list" where
  "apply_metadata_filters s results filters =
     filter (\<lambda>(cid, score).
               case repo_get_chunk s cid of
                 None \<Rightarrow> False
               | Some c \<Rightarrow>
                   list_all (\<lambda>(key, value). map_of (chunk_metadata c) key = Some value) filters)
       results"

text \<open>
  \<^verbatim>\<open>search\<close>: the filters are \<^verbatim>\<open>Optional[dict[str, str]]\<close>; \<^verbatim>\<open>if metadata_filters\<close> holds for
  a non-empty dict only.
\<close>

definition has_filters :: "metadata option \<Rightarrow> bool" where
  "has_filters f = (case f of None \<Rightarrow> False | Some d \<Rightarrow> d \<noteq> [])"

definition search ::
  "environment \<Rightarrow> store \<Rightarrow> registry \<Rightarrow> string \<Rightarrow> real list \<Rightarrow> int \<Rightarrow> metadata option
     \<Rightarrow> (error + (string \<times> real) list) \<times> registry" where
  "search env s reg lib vector k metadata_filters =
     (if k \<le> 0 then (Inr [], reg)
      else case get_or_create_index env s reg lib of
        (Inl e, reg') \<Rightarrow> (Inl e, reg')
      | (Inr None, reg') \<Rightarrow> (Inr [], reg')
      | (Inr (Some index), reg') \<Rightarrow>
          (let query_k = calculate_query_k k (has_filters metadata_filters)
           in case index_query index vector query_k of
                Inl e \<Rightarrow> (Inl e, reg')
              | Inr results \<Rightarrow>
                  (let results' = (if has_filters metadata_filters
                                   then apply_metadata_filters s results (or_empty metadata_filters)
                                   else results)
                   in (Inr (take (nat k) results'), reg'))))"

definition clear_index :: "registry \<Rightarrow> string \<Rightarrow> registry" where
  "clear_index reg lib =
     reg\<lparr>indices := AList.delete lib (indices reg),
         index_metas := AList.delete lib (index_metas reg)\<rparr>"

definition get_index_metadata :: "registry \<Rightarrow> (string \<times> index_meta) list" where
  "get_index_metadata reg = index_metas reg"

definition get_index_info :: "environment \<Rightarrow> registry \<Rightarrow> string \<Rightarrow> string \<times> index_meta" where
  "get_index_info env reg lib =
     (case map_of (index_metas reg) lib of
        None \<Rightarrow> (lib, \<lparr>algorithm = ''none'', metric = default_metric env\<rparr>)
      | Some m \<Rightarrow> (lib, m))"

text \<open>
  \<^verbatim>\<open>delete_library_cascade\<close> deletes the library in the store and clears its index; the
  \<^verbatim>\<open>LibraryService\<close> of the application is constructed with the index service.
\<close>

definition LibraryService_delete_library_cascade ::
  "store \<Rightarrow> registry \<Rightarrow> string \<Rightarrow> store \<times> registry" where
  "LibraryService_delete_library_cascade s reg k =
     (LibraryService_delete_library s k, clear_index reg k)"

section \<open>Example states for the index registry\<close>

text \<open>
  The default settings, with a generator that always returns 1 (no example below builds
  an LSH index over it unless it says so).
\<close>

definition example_env :: environment where
  "example_env = \<lparr>data_dir = ''data'', default_metric = ''cosine'', default_index = ''linear'',
                   cfg_lsh_num_planes = 16, cfg_lsh_num_tables = 4, cfg_lsh_seed = 42,
                   gauss = (\<lambda>sd n. 1)\<rparr>"

text \<open>
  The specification's scenario S3, with one more English chunk: \<open>C2\<close> is tagged
  \<open>lang = tr\<close>, \<open>C3 = ("c", [0, 1, 0])\<close> and \<open>C4 = ("d", [0, 0, 1])\<close> are tagged \<open>lang = en\<close>.
  \<open>S3_registry\<close> holds the linear cosine index built over the four chunks, and
  \<open>S3_store_after_delete\<close> is the store once chunk \<open>C3\<close> has been deleted.
\<close>

definition S3_chunk3 :: chunk where
  "S3_chunk3 = \<lparr>chunk_id = ''C3'', document_id = ''D'', chunk_text = ''c'',
                 embedding = [0, 1, 0], chunk_metadata = [(''lang'', ''en'')]\<rparr>"

definition S3_chunk4 :: chunk where
  "S3_chunk4 = \<lparr>chunk_id = ''C4'', document_id = ''D'', chunk_text = ''d'',
                 embedding = [0, 0, 1], chunk_metadata = [(''lang'', ''en'')]\<rparr>"

definition S3_store :: store where
  "S3_store = \<lparr>libraries = [S1_library], documents = [S1_document],
                chunks = [S1_chunk1, S1_chunk2\<lparr>chunk_metadata := [(''lang'', ''tr'')]\<rparr>,
                          S3_chunk3, S3_chunk4]\<rparr>"

definition S3_registry :: registry where
  "S3_registry = snd (build_index example_env S3_store empty_registry ''L'' ''linear'' ''cosine'')"

definition S3_store_after_delete :: store where
  "S3_store_after_delete = ChunkService_delete_chunk S3_store ''C3''"

section \<open>The service operations as a transition system\<close>

text \<open>
  One constructor per service method on libraries, documents and chunks, with the
  method's arguments (a creating method also gets the fresh identifier). \<open>service_step\<close>
  gives the store and registry that the call leaves behind, whether it returns or raises.
\<close>

datatype service_op =
    CreateLibrary string string "string option" "metadata option"
  | GetLibrary string
  | ListLibraries
  | UpdateLibrary string "string option" "string option" "metadata option"
  | DeleteLibrary string
  | DeleteLibraryCascade string
  | CreateDocument string string string "string option" "metadata option"
  | GetDocument string
  | ListDocuments string
  | UpdateDocument string "string option" "string option" "metadata option"
  | DeleteDocument string
  | CreateChunk string string string string "real list" "metadata option"
  | GetChunk string
  | ListChunks string
  | UpdateChunk string "string option" "real list option" "metadata option"
  | DeleteChunk string

fun service_step :: "store \<times> registry \<Rightarrow> service_op \<Rightarrow> store \<times> registry" where
  "service_step (s, r) (CreateLibrary new_id name description md) =
     (snd (LibraryService_create_library s new_id name description md), r)"
| "service_step (s, r) (GetLibrary k) = (s, r)"
| "service_step (s, r) ListLibraries = (s, r)"
| "service_step (s, r) (UpdateLibrary k name description md) =
     (snd (LibraryService_update_library s k name description md), r)"
| "service_step (s, r) (DeleteLibrary k) = (LibraryService_delete_library s k, r)"
| "service_step (s, r) (DeleteLibraryCascade k) = LibraryService_delete_library_cascade s r k"
| "service_step (s, r) (CreateDocument new_id lib ttl description md) =
     (snd (DocumentService_create_document s new_id lib ttl description md), r)"
| "service_step (s, r) (GetDocument k) = (s, r)"
| "service_step (s, r) (ListDocuments lib) = (s, r)"
| "service_step (s, r) (UpdateDocument k ttl description md) =
     (snd (DocumentService_update_document s k ttl description md), r)"
| "service_step (s, r) (DeleteDocument k) = (DocumentService_delete_document s k, r)"
| "service_step (s, r) (CreateChunk new_id lib doc txt emb md) =
     (snd (ChunkService_create_chunk s new_id lib doc txt emb md), r)"
| "service_step (s, r) (GetChunk k) = (s, r)"
| "service_step (s, r) (ListChunks lib) = (s, r)"
| "service_step (s, r) (UpdateChunk k txt emb md) =
     (snd (ChunkService_update_chunk s k txt emb md), r)"
| "service_step (s, r) (DeleteChunk k) = (ChunkService_delete_chunk s k, r)"

section \<open>Snapshots (app/services/snapshot\_service.py, memory.py's snapshot and load\_snapshot)\<close>

text \<open>
  Values of the \<^verbatim>\<open>json\<close> module: objects are dicts with string keys, kept as association
  lists. Python's integers and floats are both \<open>JNum\<close>. A snapshot file is text;
  \<^verbatim>\<open>json.dumps(data, indent=2, sort_keys=True)\<close> followed by \<^verbatim>\<open>json.loads\<close> gives back
  \<open>data\<close> with the keys of every object in ascending order, which is what \<open>sort_keys\<close>
  computes. A file of the model is either text that \<^verbatim>\<open>json.loads\<close> rejects or text
  that it parses to a value; failing writes are not modelled.
\<close>

datatype json =
    JNull
  | JBool bool
  | JNum real
  | JStr string
  | JList "json list"
  | JObj "(string \<times> json) list"

fun sort_keys :: "json \<Rightarrow> json" where
  "sort_keys (JObj kvs) =
     JObj (sort_key fst (map (\<lambda>kv. (fst kv, sort_keys (snd kv))) kvs))"
| "sort_keys (JList xs) = JList (map sort_keys xs)"
| "sort_keys j = j"

datatype file_content = Unparsable | Parsed json

type_synonym filesystem = "string \<Rightarrow> file_content option"

text \<open>\<^verbatim>\<open>model_dump()\<close> of the three pydantic models, fields in declaration order.\<close>

definition dump_optional_str :: "string option \<Rightarrow> json" where
  "dump_optional_str x = (case x of None \<Rightarrow> JNull | Some v \<Rightarrow> JStr v)"

definition dump_metadata :: "metadata \<Rightarrow> json" where
  "dump_metadata m = JObj (map (\<lambda>kv. (fst kv, JStr (snd kv))) m)"

definition library_model_dump :: "library \<Rightarrow> json" where
  "library_model_dump l =
     JObj [(''id'', JStr (lib_id l)), (''name'', JStr (lib_name l)),
           (''description'', dump_optional_str (lib_description l)),
           (''metadata'', dump_metadata (lib_metadata l)),
           (''embedding_dim'',
              (case embedding_dim l of None \<Rightarrow> JNull | Some n \<Rightarrow> JNum (of_int n)))]"

definition document_model_dump :: "document \<Rightarrow> json" where
  "document_model_dump d =
     JObj [(''id'', JStr (doc_id d)), (''library_id'', JStr (library_id d)),
           (''title'', JStr (title d)),
           (''description'', dump_optional_str (doc_description d)),
           (''metadata'', dump_metadata (doc_metadata d))]"

definition chunk_model_dump :: "chunk \<Rightarrow> json" where
  "chunk_model_dump c =
     JObj [(''id'', JStr (chunk_id c)), (''document_id'', JStr (document_id c)),
           (''text'', JStr (chunk_text c)),
           (''embedding'', JList (map JNum (embedding c))),
           (''metadata'', dump_metadata (chunk_metadata c))]"

definition repo_snapshot :: "store \<Rightarrow> (string \<times> json) list" where
  "repo_snapshot s =
     [(''libraries'', JList (map library_model_dump (libraries s))),
      (''documents'', JList (map document_model_dump (documents s))),
      (''chunks'', JList (map chunk_model_dump (chunks s)))]"

text \<open>
  The pydantic constructors \<^verbatim>\<open>Library(**d)\<close>, \<^verbatim>\<open>Document(**d)\<close>, \<^verbatim>\<open>Chunk(**d)\<close>: a missing
  required field or a value of the wrong type raises \<^verbatim>\<open>ValidationError\<close>, a missing
  optional field takes its default, other keys are ignored. An integer field accepts a
  number without fractional part. Coercions of pydantic beyond that (a numeric string
  for a number) are not modelled: the model raises \<^verbatim>\<open>ValidationError\<close> there.
\<close>

definition bind_err :: "error + 'a \<Rightarrow> ('a \<Rightarrow> error + 'b) \<Rightarrow> error + 'b" where
  "bind_err r f = (case r of Inl e \<Rightarrow> Inl e | Inr v \<Rightarrow> f v)"

fun parse_all :: "('a \<Rightarrow> error + 'b) \<Rightarrow> 'a list \<Rightarrow> error + 'b list" where
  "parse_all p [] = Inr []"
| "parse_all p (x # xs) =
     bind_err (p x) (\<lambda>v. bind_err (parse_all p xs) (\<lambda>vs. Inr (v # vs)))"

fun parse_str :: "json \<Rightarrow> error + string" where
  "parse_str (JStr s) = Inr s"
| "parse_str _ = Inl ValidationError"

fun parse_optional_str :: "json \<Rightarrow> error + string option" where
  "parse_optional_str JNull = Inr None"
| "parse_optional_str (JStr s) = Inr (Some s)"
| "parse_optional_str _ = Inl ValidationError"

fun parse_optional_int :: "json \<Rightarrow> error + int option" where
  "parse_optional_int JNull = Inr None"
| "parse_optional_int (JNum r) =
     (if r = of_int \<lfloor>r\<rfloor> then Inr (Some \<lfloor>r\<rfloor>) else Inl ValidationError)"
| "parse_optional_int _ = Inl ValidationError"

fun parse_float :: "json \<Rightarrow> error + real" where
  "parse_float (JNum r) = Inr r"
| "parse_float _ = Inl ValidationError"

fun parse_embedding :: "json \<Rightarrow> error + real list" where
  "parse_embedding (JList xs) = parse_all parse_float xs"
| "parse_embedding _ = Inl ValidationError"

fun parse_metadata :: "json \<Rightarrow> error + metadata" where
  "parse_metadata (JObj kvs) =
     parse_all (\<lambda>kv. bind_err (parse_str (snd kv)) (\<lambda>v. Inr (fst kv, v))) kvs"
| "parse_metadata _ = Inl ValidationError"

definition required :: "(string \<times> json) list \<Rightarrow> string \<Rightarrow> (json \<Rightarrow> error + 'a) \<Rightarrow> error + 'a" where
  "required kvs key p =
     (case map_of kvs key of None \<Rightarrow> Inl ValidationError | Some j \<Rightarrow> p j)"

definition optional ::
  "(string \<times> json) list \<Rightarrow> string \<Rightarrow> 'a \<Rightarrow> (json \<Rightarrow> error + 'a) \<Rightarrow> error + 'a" where
  "optional kvs key dflt p =
     (case map_of kvs key of None \<Rightarrow> Inr dflt | Some j \<Rightarrow> p j)"

definition Library_of :: "(string \<times> json) list \<Rightarrow> error + library" where
  "Library_of d =
     bind_err (required d ''id'' parse_str) (\<lambda>i.
     bind_err (required d ''name'' parse_str) (\<lambda>n.
     bind_err (optional d ''description'' None parse_optional_str) (\<lambda>ds.
     bind_err (optional d ''metadata'' [] parse_metadata) (\<lambda>m.
     bind_err (optional d ''embedding_dim'' None parse_optional_int) (\<lambda>e.
       Inr \<lparr>lib_id = i, lib_name = n, lib_description = ds, lib_metadata = m,
            embedding_dim = e\<rparr>)))))"

definition Document_of :: "(string \<times> json) list \<Rightarrow> error + document" where
  "Document_of d =
     bind_err (required d ''id'' parse_str) (\<lambda>i.
     bind_err (required d ''library_id'' parse_str) (\<lambda>l.
     bind_err (required d ''title'' parse_str) (\<lambda>t.
     bind_err (optional d ''description'' None parse_optional_str) (\<lambda>ds.
     bind_err (optional d ''metadata'' [] parse_metadata) (\<lambda>m.
       Inr \<lparr>doc_id = i, library_id = l, title = t, doc_description = ds,
            doc_metadata = m\<rparr>)))))"

definition Chunk_of :: "(string \<times> json) list \<Rightarrow> error + chunk" where
  "Chunk_of d =
     bind_err (required d ''id'' parse_str) (\<lambda>i.
     bind_err (required d ''document_id'' parse_str) (\<lambda>dc.
     bind_err (required d ''text'' parse_str) (\<lambda>t.
     bind_err (optional d ''embedding'' [] parse_embedding) (\<lambda>e.
     bind_err (optional d ''metadata'' [] parse_metadata) (\<lambda>m.
       Inr \<lparr>chunk_id = i, document_id = dc, chunk_text = t, embedding = e,
            chunk_metadata = m\<rparr>)))))"

text \<open>
  \<^verbatim>\<open>data.get(key, [])\<close> as the iterable of a comprehension: a list gives its items; an
  empty dict or string gives nothing; iterating anything else, or subscripting what it
  yields with \<^verbatim>\<open>"id"\<close>, raises \<^verbatim>\<open>TypeError\<close>.
\<close>

definition table_items :: "(string \<times> json) list \<Rightarrow> string \<Rightarrow> error + json list" where
  "table_items kvs key =
     (case map_of kvs key of
        None \<Rightarrow> Inr []
      | Some (JList xs) \<Rightarrow> Inr xs
      | Some (JObj []) \<Rightarrow> Inr []
      | Some (JStr []) \<Rightarrow> Inr []
      | Some _ \<Rightarrow> Inl TypeError)"

text \<open>
  The dict comprehension \<^verbatim>\<open>{d["id"]: Model(**d) for d in items}\<close>: the key expression
  is evaluated first (\<^verbatim>\<open>KeyError\<close> when \<^verbatim>\<open>"id"\<close> is missing), then the constructor; a
  repeated identifier keeps its first position and takes the last record.
\<close>

fun load_table ::
  "((string \<times> json) list \<Rightarrow> error + 'e) \<Rightarrow> ('e \<Rightarrow> string) \<Rightarrow> json list \<Rightarrow> 'e list
     \<Rightarrow> error + 'e list" where
  "load_table p key [] acc = Inr acc"
| "load_table p key (JObj kvs # ds) acc =
     (case map_of kvs ''id'' of
        None \<Rightarrow> Inl (KeyError ''id'')
      | Some _ \<Rightarrow>
          (case p kvs of
             Inl e \<Rightarrow> Inl e
           | Inr e \<Rightarrow> load_table p key ds (upsert key e acc)))"
| "load_table p key (_ # ds) acc = Inl TypeError"

text \<open>
  \<^verbatim>\<open>load_snapshot\<close> assigns the three tables one after the other, each as soon as its
  comprehension has been evaluated: a raise leaves the tables assigned before it.
\<close>

definition repo_load_snapshot :: "store \<Rightarrow> json \<Rightarrow> (error + unit) \<times> store" where
  "repo_load_snapshot s data =
     (case data of
        JObj kvs \<Rightarrow>
          (case bind_err (table_items kvs ''libraries'')
                  (\<lambda>items. load_table Library_of lib_id items []) of
             Inl e \<Rightarrow> (Inl e, s)
           | Inr libs \<Rightarrow>
               (case bind_err (table_items kvs ''documents'')
                       (\<lambda>items. load_table Document_of doc_id items []) of
                  Inl e \<Rightarrow> (Inl e, s\<lparr>libraries := libs\<rparr>)
                | Inr docs \<Rightarrow>
                    (case bind_err (table_items kvs ''chunks'')
                            (\<lambda>items. load_table Chunk_of chunk_id items []) of
                       Inl e \<Rightarrow> (Inl e, s\<lparr>libraries := libs, documents := docs\<rparr>)
                     | Inr cs \<Rightarrow>
                         (Inr (), s\<lparr>libraries := libs, documents := docs, chunks := cs\<rparr>))))
      | _ \<Rightarrow> (Inl AttributeError, s))"

text \<open>
  \<^verbatim>\<open>rebuild_indices\<close>: \<^verbatim>\<open>metadata.items()\<close> raises \<^verbatim>\<open>AttributeError\<close> unless the metadata
  are a dict; inside the loop every exception is logged and the loop goes on.
  \<open>meta_field\<close> is \<^verbatim>\<open>meta.get(key, default)\<close> where the result is a string, the only
  type on which \<^verbatim>\<open>build_index\<close> can call \<^verbatim>\<open>.lower()\<close>.
\<close>

definition meta_field :: "(string \<times> json) list \<Rightarrow> string \<Rightarrow> string \<Rightarrow> string option" where
  "meta_field kvs key dflt =
     (case map_of kvs key of
        None \<Rightarrow> Some dflt
      | Some (JStr v) \<Rightarrow> Some v
      | Some _ \<Rightarrow> None)"

fun rebuild_loop ::
  "environment \<Rightarrow> store \<Rightarrow> registry \<Rightarrow> (string \<times> json) list \<Rightarrow> registry" where
  "rebuild_loop env s reg [] = reg"
| "rebuild_loop env s reg ((lib, JObj kvs) # rest) =
     (case (meta_field kvs ''algorithm'' (default_index env),
            meta_field kvs ''metric'' (default_metric env)) of
        (Some a, Some m) \<Rightarrow> rebuild_loop env s (snd (build_index env s reg lib a m)) rest
      | _ \<Rightarrow> rebuild_loop env s reg rest)"
| "rebuild_loop env s reg ((lib, _) # rest) = rebuild_loop env s reg rest"

definition rebuild_indices :: "environment \<Rightarrow> store \<Rightarrow> registry \<Rightarrow> json \<Rightarrow> error + registry" where
  "rebuild_indices env s reg md =
     (case md of
        JObj entries \<Rightarrow> Inr (rebuild_loop env s reg entries)
      | _ \<Rightarrow> Inl AttributeError)"

definition dump_index_metadata :: "(string \<times> index_meta) list \<Rightarrow> json" where
  "dump_index_metadata ms =
     JObj (map (\<lambda>lm. (fst lm, JObj [(''algorithm'', JStr (algorithm (snd lm))),
                                      (''metric'', JStr (metric (snd lm)))])) ms)"

text \<open>
  \<^verbatim>\<open>save\<close>: \<open>stamp\<close> is \<^verbatim>\<open>datetime.now().strftime("%Y%m%d_%H%M%S")\<close> and \<open>iso_now\<close> is
  \<^verbatim>\<open>datetime.now().isoformat()\<close>. It returns the path and the file system with the file
  written.
\<close>

definition SnapshotService_save ::
  "environment \<Rightarrow> store \<Rightarrow> registry \<Rightarrow> filesystem \<Rightarrow> string option \<Rightarrow> string \<Rightarrow> string
     \<Rightarrow> string \<times> filesystem" where
  "SnapshotService_save env s reg fs path stamp iso_now =
     (let p = (case path of
                 None \<Rightarrow> data_dir env @ ''/snapshot_'' @ stamp @ ''.json''
               | Some q \<Rightarrow> q);
          data = JObj (repo_snapshot s @
                   [(''indices'', dump_index_metadata (get_index_metadata reg)),
                    (''timestamp'', JStr iso_now)])
      in (p, fs(p \<mapsto> Parsed (sort_keys data))))"

definition SnapshotService_load ::
  "environment \<Rightarrow> store \<Rightarrow> registry \<Rightarrow> filesystem \<Rightarrow> string option
     \<Rightarrow> (error + unit) \<times> store \<times> registry" where
  "SnapshotService_load env s reg fs path =
     (let p = (case path of None \<Rightarrow> data_dir env @ ''/snapshot.json'' | Some q \<Rightarrow> q)
      in case fs p of
           None \<Rightarrow> (Inr (), s, reg)
         | Some Unparsable \<Rightarrow> (Inl JSONDecodeError, s, reg)
         | Some (Parsed data) \<Rightarrow>
             (case repo_load_snapshot s data of
                (Inl e, s') \<Rightarrow> (Inl e, s', reg)
              | (Inr _, s') \<Rightarrow>
                  (case rebuild_indices env s' reg
                          (case data of
                             JObj kvs \<Rightarrow>
                               (case map_of kvs ''indices'' of
                                  None \<Rightarrow> JObj []
                                | Some j \<Rightarrow> j)
                           | _ \<Rightarrow> JObj []) of
                     Inl e \<Rightarrow> (Inl e, s', reg)
                   | Inr reg' \<Rightarrow> (Inr (), s', reg'))))"

section \<open>Well-formed states and equality of records\<close>

text \<open>
  The keys of a Python dict are distinct: in a well-formed store no table holds two
  records with the same identifier. In a well-formed registry the keys of the two dicts
  are distinct, every index indexed under a library has that library's metadata entry
  \<^verbatim>\<open>{"algorithm": index.kind(), "metric": index.metric()}\<close>, every metadata entry has an
  index, and the metric of a linear index is one that its constructor accepts. The
  registry's writers (\<open>install_index\<close>, \<open>clear_index\<close>) keep it so.
\<close>

definition store_wf :: "store \<Rightarrow> bool" where
  "store_wf s =
     (distinct (map lib_id (libraries s)) \<and> distinct (map doc_id (documents s)) \<and>
      distinct (map chunk_id (chunks s)))"

fun index_wf :: "vector_index \<Rightarrow> bool" where
  "index_wf (Linear idx) = (lin_metric idx = ''cosine'' \<or> lin_metric idx = ''euclidean'')"
| "index_wf (KDTree idx) = True"
| "index_wf (LSH idx) = True"

definition registry_wf :: "registry \<Rightarrow> bool" where
  "registry_wf reg =
     (distinct (map fst (indices reg)) \<and> distinct (map fst (index_metas reg)) \<and>
      list_all (\<lambda>li. index_wf (snd li) \<and>
                  map_of (index_metas reg) (fst li) =
                    Some \<lparr>algorithm = index_kind (snd li), metric = index_metric (snd li)\<rparr>)
        (indices reg) \<and>
      list_all (\<lambda>lm. map_of (indices reg) (fst lm) \<noteq> None) (index_metas reg))"

text \<open>
  Python's \<^verbatim>\<open>==\<close> on two records compares them field by field, and two dicts are equal
  when they hold the same items, in whatever order.
\<close>

definition dict_eq :: "metadata \<Rightarrow> metadata \<Rightarrow> bool" where
  "dict_eq m m' = (set m = set m')"

definition library_eq :: "library \<Rightarrow> library \<Rightarrow> bool" where
  "library_eq l l' =
     (lib_id l = lib_id l' \<and> lib_name l = lib_name l' \<and>
      lib_description l = lib_description l' \<and> dict_eq (lib_metadata l) (lib_metadata l') \<and>
      embedding_dim l = embedding_dim l')"

definition document_eq :: "document \<Rightarrow> document \<Rightarrow> bool" where
  "document_eq d d' =
     (doc_id d = doc_id d' \<and> library_id d = library_id d' \<and> title d = title d' \<and>
      doc_description d = doc_description d' \<and> dict_eq (doc_metadata d) (doc_metadata d'))"

definition chunk_eq :: "chunk \<Rightarrow> chunk \<Rightarrow> bool" where
  "chunk_eq c c' =
     (chunk_id c = chunk_id c' \<and> document_id c = document_id c' \<and>
      chunk_text c = chunk_text c' \<and> embedding c = embedding c' \<and>
      dict_eq (chunk_metadata c) (chunk_metadata c'))"

text \<open>
  A record as a snapshot gives it back: the same fields, the metadata dict with its keys
  in ascending order.
\<close>

definition canon_library :: "library \<Rightarrow> library" where
  "canon_library l = l\<lparr>lib_metadata := sort_key fst (lib_metadata l)\<rparr>"

definition canon_document :: "document \<Rightarrow> document" where
  "canon_document d = d\<lparr>doc_metadata := sort_key fst (doc_metadata d)\<rparr>"

definition canon_chunk :: "chunk \<Rightarrow> chunk" where
  "canon_chunk c = c\<lparr>chunk_metadata := sort_key fst (chunk_metadata c)\<rparr>"

text \<open>
  \<open>keeps_indices reg0 reg\<close>: \<open>reg\<close> has the metadata entries of \<open>reg0\<close>, and every library
  that has an index in \<open>reg0\<close> has in \<open>reg\<close> an index of the same algorithm and metric.
\<close>

definition keeps_indices :: "registry \<Rightarrow> registry \<Rightarrow> bool" where
  "keeps_indices reg0 reg \<longleftrightarrow>
     (\<forall>lib. map_of (index_metas reg) lib = map_of (index_metas reg0) lib) \<and>
     (\<forall>lib idx. map_of (indices reg0) lib = Some idx \<longrightarrow>
        (\<exists>idx'. map_of (indices reg) lib = Some idx' \<and> index_kind idx' = index_kind idx \<and>
           index_metric idx' = index_metric idx))"

section \<open>Abstraction of KD-trees and bounded heaps\<close>



text \<open>
  The heap items of a list of points for a query: \<^verbatim>\<open>(-dist, point_id)\<close>.
  \<open>topk k S h\<close>: the heap \<open>h\<close> holds \<open>min k (size S)\<close> of the items \<open>S\<close>, and no item left out
  is nearer than an item kept.
\<close>

definition heap_items :: "real list \<Rightarrow> (real list \<times> string) list \<Rightarrow> (real \<times> string) list" where
  "heap_items target xs = map (\<lambda>q. (- euclidean_distance target (fst q), snd q)) xs"


section \<open>The brute-force reference for nearest neighbours\<close>

text \<open>
  The specification's exhaustive scan with the Euclidean metric: score every stored
  vector by \<open>1 / (1 + distance)\<close>, sort the pairs by score, largest first, ties in
  insertion order, and keep the first \<open>k\<close>. It is what \<open>LinearIndex_query\<close> computes for
  the metric \<^verbatim>\<open>euclidean\<close>.
\<close>

definition brute_force_euclidean ::
  "real list list \<Rightarrow> string list \<Rightarrow> real list \<Rightarrow> int \<Rightarrow> (string \<times> real) list" where
  "brute_force_euclidean vectors ids q k =
     take (nat k)
       (sort_reverse snd
          (map (\<lambda>(i, v). (i, 1 / (1 + euclidean_distance q v))) (zip ids vectors)))"

text \<open>The conversion of a heap item to a result pair in \<^verbatim>\<open>KDTreeIndex.query\<close>.\<close>

definition to_score :: "real \<times> string \<Rightarrow> string \<times> real" where
  "to_score x = (snd x, 1 / (1 + (- fst x)))"

section \<open>Theorems\<close>

subsection \<open>C9: the overfetch size\<close>

text \<open>
  C9. The overfetch size that the registry search computes,
  \<^verbatim>\<open>max(k, min(k * multiplier, k + buffer))\<close>, equals the specification's
  \<open>min (max k (k * m)) (k + b)\<close> with \<open>m = 3\<close>, \<open>b = 50\<close> without metadata filters and
  \<open>m = 6\<close>, \<open>b = 100\<close> with them. The two expressions agree for every integer \<open>k\<close>, so
  in particular for every \<open>k > 0\<close>.
\<close>

theorem calculate_query_k_spec:
  "calculate_query_k k False = min (max k (k * 3)) (k + 50) \<and>
   calculate_query_k k True = min (max k (k * 6)) (k + 100)"
  by (simp add: calculate_query_k_def DEFAULT_SEARCH_MULTIPLIER_def MAX_SEARCH_BUFFER_def
      Let_def min_def max_def)

subsection \<open>C5: vector math on arguments of different lengths\<close>




subsection \<open>Tables: lookup after upsert\<close>

lemma lookup_key: "lookup key k xs = Some x \<Longrightarrow> key x = k"
  unfolding lookup_def by (induction xs) (auto split: if_splits)

lemma lookup_mem: "lookup key k xs = Some x \<Longrightarrow> x \<in> set xs"
  unfolding lookup_def by (induction xs) (auto split: if_splits)

lemma lookup_upsert_same: "lookup key (key e) (upsert key e xs) = Some e"
  unfolding lookup_def by (induction xs) auto

lemma lookup_upsert_other: "k \<noteq> key e \<Longrightarrow> lookup key k (upsert key e xs) = lookup key k xs"
  unfolding lookup_def by (induction xs) auto

lemma upsert_same_id: "lookup key (key e) xs = Some e \<Longrightarrow> upsert key e xs = xs"
  unfolding lookup_def by (induction xs) (auto split: if_splits)

lemma validate_unset:
  assumes "emb \<noteq> []" "repo_get_library s lib = Some L" "embedding_dim L = None"
  shows "\<exists>s'. validate_embedding_dimensions s lib emb = (Inr (), s') \<and>
           documents s' = documents s \<and> chunks s' = chunks s \<and>
           repo_get_library s' lib = Some (L\<lparr>embedding_dim := Some (int (length emb))\<rparr>)"
proof -
  have "lib_id L = lib" using assms(2) by (auto simp: repo_get_library_def dest: lookup_key)
  then show ?thesis using assms
    by (auto simp: validate_embedding_dimensions_def repo_update_library_def repo_get_library_def
        lookup_upsert_same [of lib_id "L\<lparr>embedding_dim := Some (int (length emb))\<rparr>", simplified])
qed

lemma validate_mismatch:
  assumes "emb \<noteq> []" "repo_get_library s lib = Some L" "embedding_dim L = Some n"
    "n \<noteq> int (length emb)"
  shows "validate_embedding_dimensions s lib emb =
           (Inl (DimensionalityMismatchException n (int (length emb))), s)"
  using assms by (auto simp: validate_embedding_dimensions_def)

lemma validate_equal:
  assumes "emb \<noteq> []" "repo_get_library s lib = Some L"
    "embedding_dim L = Some (int (length emb))"
  shows "validate_embedding_dimensions s lib emb = (Inr (), s)"
  using assms by (simp add: validate_embedding_dimensions_def)

lemma repo_create_chunk_library [simp]:
  "repo_get_library (repo_create_chunk s c) lib = repo_get_library s lib"
  "repo_get_library (repo_update_chunk s c) lib = repo_get_library s lib"
  by (simp_all add: repo_get_library_def repo_create_chunk_def repo_update_chunk_def)


lemma create_chunk_cases:
  assumes "emb \<noteq> []" "repo_get_library s lib = Some L"
    "repo_get_document s doc = Some d" "library_id d = lib"
  shows "(embedding_dim L = None \<longrightarrow>
            (\<exists>c' s'. ChunkService_create_chunk s new_id lib doc txt emb md = (Inr c', s') \<and>
               repo_get_chunk s' new_id = Some c' \<and> embedding c' = emb \<and>
               repo_get_library s' lib = Some (L\<lparr>embedding_dim := Some (int (length emb))\<rparr>))) \<and>
         (\<forall>n. embedding_dim L = Some n \<and> n \<noteq> int (length emb) \<longrightarrow>
            ChunkService_create_chunk s new_id lib doc txt emb md =
              (Inl (DimensionalityMismatchException n (int (length emb))), s)) \<and>
         (embedding_dim L = Some (int (length emb)) \<longrightarrow>
            (\<exists>c' s'. ChunkService_create_chunk s new_id lib doc txt emb md = (Inr c', s') \<and>
               repo_get_chunk s' new_id = Some c' \<and> embedding c' = emb \<and>
               repo_get_library s' lib = Some L))"
proof (intro conjI impI allI)
  assume "embedding_dim L = None"
  from validate_unset [OF assms(1,2) this] obtain s1 where
    v: "validate_embedding_dimensions s lib emb = (Inr (), s1)"
    and l: "repo_get_library s1 lib = Some (L\<lparr>embedding_dim := Some (int (length emb))\<rparr>)"
    by blast
  show "\<exists>c' s'. ChunkService_create_chunk s new_id lib doc txt emb md = (Inr c', s') \<and>
          repo_get_chunk s' new_id = Some c' \<and> embedding c' = emb \<and>
          repo_get_library s' lib = Some (L\<lparr>embedding_dim := Some (int (length emb))\<rparr>)"
    using assms(3,4) v l
    by (simp add: ChunkService_create_chunk_def Let_def repo_get_chunk_def repo_create_chunk_def
        lookup_upsert_same [of chunk_id "\<lparr>chunk_id = new_id, document_id = doc, chunk_text = txt,
          embedding = emb, chunk_metadata = or_empty md\<rparr>", simplified]
        repo_get_library_def)
next
  fix n assume "embedding_dim L = Some n \<and> n \<noteq> int (length emb)"
  then have "validate_embedding_dimensions s lib emb =
      (Inl (DimensionalityMismatchException n (int (length emb))), s)"
    using validate_mismatch [OF assms(1,2)] by blast
  then show "ChunkService_create_chunk s new_id lib doc txt emb md =
      (Inl (DimensionalityMismatchException n (int (length emb))), s)"
    using assms(3,4) by (simp add: ChunkService_create_chunk_def)
next
  assume "embedding_dim L = Some (int (length emb))"
  then have v: "validate_embedding_dimensions s lib emb = (Inr (), s)"
    using validate_equal [OF assms(1,2)] by blast
  show "\<exists>c' s'. ChunkService_create_chunk s new_id lib doc txt emb md = (Inr c', s') \<and>
          repo_get_chunk s' new_id = Some c' \<and> embedding c' = emb \<and>
          repo_get_library s' lib = Some L"
    using assms(2,3,4) v
    by (simp add: ChunkService_create_chunk_def Let_def repo_get_chunk_def repo_create_chunk_def
        lookup_upsert_same [of chunk_id "\<lparr>chunk_id = new_id, document_id = doc, chunk_text = txt,
          embedding = emb, chunk_metadata = or_empty md\<rparr>", simplified]
        repo_get_library_def)
qed

lemma update_chunk_after_validate:
  assumes "repo_get_chunk s k = Some c" "repo_get_document s (document_id c) = Some d"
  shows "ChunkService_update_chunk s k txt (Some emb) md =
     (case validate_embedding_dimensions s (library_id d) emb of
        (Inl e, s') \<Rightarrow> (Inl e, s')
      | (Inr _, s') \<Rightarrow>
          (let c1 = c\<lparr>embedding := emb\<rparr>;
               c2 = (case txt of None \<Rightarrow> c1 | Some t \<Rightarrow> c1\<lparr>chunk_text := t\<rparr>);
               c3 = (case md of None \<Rightarrow> c2 | Some m \<Rightarrow> c2\<lparr>chunk_metadata := m\<rparr>)
           in (Inr c3, repo_update_chunk s' c3)))"
  using assms
  by (simp add: ChunkService_update_chunk_def ChunkService_get_chunk_def Let_def
      split: prod.splits sum.splits)

lemma updated_chunk_fields:
  "chunk_id (case md of None \<Rightarrow> (case txt of None \<Rightarrow> c\<lparr>embedding := emb\<rparr>
        | Some t \<Rightarrow> c\<lparr>embedding := emb, chunk_text := t\<rparr>)
      | Some m \<Rightarrow> (case txt of None \<Rightarrow> c\<lparr>embedding := emb\<rparr>
        | Some t \<Rightarrow> c\<lparr>embedding := emb, chunk_text := t\<rparr>)\<lparr>chunk_metadata := m\<rparr>) = chunk_id c"
  "embedding (case md of None \<Rightarrow> (case txt of None \<Rightarrow> c\<lparr>embedding := emb\<rparr>
        | Some t \<Rightarrow> c\<lparr>embedding := emb, chunk_text := t\<rparr>)
      | Some m \<Rightarrow> (case txt of None \<Rightarrow> c\<lparr>embedding := emb\<rparr>
        | Some t \<Rightarrow> c\<lparr>embedding := emb, chunk_text := t\<rparr>)\<lparr>chunk_metadata := m\<rparr>) = emb"
  by (auto split: option.splits)

lemma update_chunk_cases:
  assumes "emb \<noteq> []" "repo_get_library s lib = Some L"
    "repo_get_chunk s k = Some c" "repo_get_document s (document_id c) = Some d"
    "library_id d = lib"
  shows "(embedding_dim L = None \<longrightarrow>
            (\<exists>c' s'. ChunkService_update_chunk s k txt (Some emb) md = (Inr c', s') \<and>
               repo_get_chunk s' k = Some c' \<and> embedding c' = emb \<and>
               repo_get_library s' lib = Some (L\<lparr>embedding_dim := Some (int (length emb))\<rparr>))) \<and>
         (\<forall>n. embedding_dim L = Some n \<and> n \<noteq> int (length emb) \<longrightarrow>
            ChunkService_update_chunk s k txt (Some emb) md =
              (Inl (DimensionalityMismatchException n (int (length emb))), s)) \<and>
         (embedding_dim L = Some (int (length emb)) \<longrightarrow>
            (\<exists>c' s'. ChunkService_update_chunk s k txt (Some emb) md = (Inr c', s') \<and>
               repo_get_chunk s' k = Some c' \<and> embedding c' = emb \<and>
               repo_get_library s' lib = Some L))"
proof -
  have kid: "chunk_id c = k"
    using assms(3) by (auto simp: repo_get_chunk_def dest: lookup_key)
  have upd: "ChunkService_update_chunk s k txt (Some emb) md =
     (case validate_embedding_dimensions s lib emb of
        (Inl e, s') \<Rightarrow> (Inl e, s')
      | (Inr _, s') \<Rightarrow>
          (let c1 = c\<lparr>embedding := emb\<rparr>;
               c2 = (case txt of None \<Rightarrow> c1 | Some t \<Rightarrow> c1\<lparr>chunk_text := t\<rparr>);
               c3 = (case md of None \<Rightarrow> c2 | Some m \<Rightarrow> c2\<lparr>chunk_metadata := m\<rparr>)
           in (Inr c3, repo_update_chunk s' c3)))"
    using update_chunk_after_validate [OF assms(3,4)] assms(5) by simp
  have stored: "\<And>s' c'. chunk_id c' = k \<Longrightarrow> repo_get_chunk (repo_update_chunk s' c') k = Some c'"
    using lookup_upsert_same [of chunk_id]
    by (auto simp: repo_get_chunk_def repo_update_chunk_def)
  show ?thesis
  proof (intro conjI impI allI)
    assume "embedding_dim L = None"
    from validate_unset [OF assms(1,2) this] obtain s1 where
      v: "validate_embedding_dimensions s lib emb = (Inr (), s1)"
      and l: "repo_get_library s1 lib = Some (L\<lparr>embedding_dim := Some (int (length emb))\<rparr>)"
      by blast
    show "\<exists>c' s'. ChunkService_update_chunk s k txt (Some emb) md = (Inr c', s') \<and>
            repo_get_chunk s' k = Some c' \<and> embedding c' = emb \<and>
            repo_get_library s' lib = Some (L\<lparr>embedding_dim := Some (int (length emb))\<rparr>)"
      using v l kid by (simp add: upd Let_def stored updated_chunk_fields)
  next
    fix n assume "embedding_dim L = Some n \<and> n \<noteq> int (length emb)"
    then have "validate_embedding_dimensions s lib emb =
        (Inl (DimensionalityMismatchException n (int (length emb))), s)"
      using validate_mismatch [OF assms(1,2)] by blast
    then show "ChunkService_update_chunk s k txt (Some emb) md =
        (Inl (DimensionalityMismatchException n (int (length emb))), s)"
      by (simp add: upd)
  next
    assume "embedding_dim L = Some (int (length emb))"
    then have v: "validate_embedding_dimensions s lib emb = (Inr (), s)"
      using validate_equal [OF assms(1,2)] by blast
    show "\<exists>c' s'. ChunkService_update_chunk s k txt (Some emb) md = (Inr c', s') \<and>
            repo_get_chunk s' k = Some c' \<and> embedding c' = emb \<and>
            repo_get_library s' lib = Some L"
      using v kid assms(2) by (simp add: upd Let_def stored updated_chunk_fields)
  qed
qed

lemmas S1_defs = S1_store_def S1_library_def S1_document_def S1_chunk1_def S1_chunk2_def

subsection \<open>C3: dimension enforcement on chunk create and update\<close>

text \<open>
  C3. Let \<open>emb\<close> be a non-empty embedding and \<open>L\<close> the stored library \<open>lib\<close>. A chunk create
  in a document \<open>doc\<close> of \<open>lib\<close> (whatever chunks the library holds, none included), and a
  chunk update of a stored chunk \<open>k\<close> whose document belongs to \<open>lib\<close>, each behave as
  follows. If \<open>L\<close> has no \<open>embedding_dim\<close>, the operation succeeds, the chunk is stored with
  \<open>emb\<close> and the library's \<open>embedding_dim\<close> becomes \<open>length emb\<close>. If the \<open>embedding_dim\<close>
  is \<open>n \<noteq> length emb\<close>, the operation raises
  \<open>DimensionalityMismatchException n (length emb)\<close> and leaves the whole store as it was, so
  no chunk is created or changed. If it equals \<open>length emb\<close>, the operation succeeds and the
  stored library is unchanged. The create carries only the create's conditions and the update
  only the update's.
\<close>

theorem chunk_dimension_enforcement:
  assumes "emb \<noteq> []" "repo_get_library s lib = Some L"
  shows "(\<forall>d. repo_get_document s doc = Some d \<and> library_id d = lib \<longrightarrow>
           (embedding_dim L = None \<longrightarrow>
              (\<exists>c' s'. ChunkService_create_chunk s new_id lib doc ctext emb md = (Inr c', s') \<and>
                 repo_get_chunk s' new_id = Some c' \<and> embedding c' = emb \<and>
                 repo_get_library s' lib = Some (L\<lparr>embedding_dim := Some (int (length emb))\<rparr>))) \<and>
           (\<forall>n. embedding_dim L = Some n \<and> n \<noteq> int (length emb) \<longrightarrow>
              ChunkService_create_chunk s new_id lib doc ctext emb md =
                (Inl (DimensionalityMismatchException n (int (length emb))), s)) \<and>
           (embedding_dim L = Some (int (length emb)) \<longrightarrow>
              (\<exists>c' s'. ChunkService_create_chunk s new_id lib doc ctext emb md = (Inr c', s') \<and>
                 repo_get_chunk s' new_id = Some c' \<and> embedding c' = emb \<and>
                 repo_get_library s' lib = Some L))) \<and>
         (\<forall>c d'. repo_get_chunk s k = Some c \<and> repo_get_document s (document_id c) = Some d' \<and>
              library_id d' = lib \<longrightarrow>
           (embedding_dim L = None \<longrightarrow>
              (\<exists>c' s'. ChunkService_update_chunk s k txt' (Some emb) md' = (Inr c', s') \<and>
                 repo_get_chunk s' k = Some c' \<and> embedding c' = emb \<and>
                 repo_get_library s' lib = Some (L\<lparr>embedding_dim := Some (int (length emb))\<rparr>))) \<and>
           (\<forall>n. embedding_dim L = Some n \<and> n \<noteq> int (length emb) \<longrightarrow>
              ChunkService_update_chunk s k txt' (Some emb) md' =
                (Inl (DimensionalityMismatchException n (int (length emb))), s)) \<and>
           (embedding_dim L = Some (int (length emb)) \<longrightarrow>
              (\<exists>c' s'. ChunkService_update_chunk s k txt' (Some emb) md' = (Inr c', s') \<and>
                 repo_get_chunk s' k = Some c' \<and> embedding c' = emb \<and>
                 repo_get_library s' lib = Some L)))"
  (is "(\<forall>d. ?pc d \<longrightarrow> ?C) \<and> (\<forall>c d'. ?pu c d' \<longrightarrow> ?U)")
proof -
  have "?C" if h: "?pc d" for d
    by (rule create_chunk_cases [OF assms conjunct1 [OF h] conjunct2 [OF h]])
  moreover have "?U" if h: "?pu c d'" for c d'
    by (rule update_chunk_cases [OF assms conjunct1 [OF h] conjunct1 [OF conjunct2 [OF h]]
          conjunct2 [OF conjunct2 [OF h]]])
  ultimately show ?thesis by blast
qed

text \<open>
  The three cases on concrete states: the first create into the still empty library of
  scenario S1 freezes the dimensionality at 3; in the state after S1 a create and an update
  with two coordinates are refused and leave the store as it was; a create and an update with
  three coordinates succeed and leave the library as it was.
\<close>

theorem chunk_dimension_enforcement_witness:
  "(\<exists>s'. ChunkService_create_chunk S0_store ''C1'' ''L'' ''D'' ''a'' [0, 1, 0] None =
            (Inr S1_chunk1, s') \<and>
         repo_get_chunk s' ''C1'' = Some S1_chunk1 \<and>
         repo_get_library s' ''L'' = Some S1_library) \<and>
   ChunkService_create_chunk S1_store ''C3'' ''L'' ''D'' ''c'' [1, 0] None =
     (Inl (DimensionalityMismatchException 3 2), S1_store) \<and>
   ChunkService_update_chunk S1_store ''C1'' None (Some [1, 0]) None =
     (Inl (DimensionalityMismatchException 3 2), S1_store) \<and>
   (\<exists>c' s'. ChunkService_create_chunk S1_store ''C3'' ''L'' ''D'' ''c'' [0, 0, 1] None =
            (Inr c', s') \<and>
         repo_get_chunk s' ''C3'' = Some c' \<and> embedding c' = [0, 0, 1] \<and>
         repo_get_library s' ''L'' = Some S1_library) \<and>
   (\<exists>c' s'. ChunkService_update_chunk S1_store ''C1'' None (Some [0, 0, 1]) None =
            (Inr c', s') \<and>
         repo_get_chunk s' ''C1'' = Some c' \<and> embedding c' = [0, 0, 1] \<and>
         repo_get_library s' ''L'' = Some S1_library)"
proof -
  have l0: "repo_get_library S0_store ''L'' = Some (S1_library\<lparr>embedding_dim := None\<rparr>)"
    and d0: "repo_get_document S0_store ''D'' = Some S1_document \<and> library_id S1_document = ''L''"
    and l1: "repo_get_library S1_store ''L'' = Some S1_library"
    and d1: "repo_get_document S1_store ''D'' = Some S1_document \<and> library_id S1_document = ''L''"
    and c1: "repo_get_chunk S1_store ''C1'' = Some S1_chunk1 \<and>
             repo_get_document S1_store (document_id S1_chunk1) = Some S1_document \<and>
             library_id S1_document = ''L''"
    by (simp_all add: S0_store_def S1_defs repo_get_library_def repo_get_document_def
        repo_get_chunk_def lookup_def)
  have e: "embedding_dim S1_library = Some 3"
    "S1_library\<lparr>embedding_dim := None, embedding_dim := Some 3\<rparr> = S1_library"
    by (simp_all add: S1_library_def)
  have a: "\<exists>c' s'. ChunkService_create_chunk S0_store ''C1'' ''L'' ''D'' ''a'' [0, 1, 0] None =
            (Inr c', s') \<and> repo_get_chunk s' ''C1'' = Some c' \<and> embedding c' = [0, 1, 0] \<and>
         repo_get_library s' ''L'' = Some S1_library"
    using chunk_dimension_enforcement [OF _ l0, of "[0, 1, 0]" "''D''" "''C1''" "''a''" None]
      d0 e by simp
  have c: "ChunkService_create_chunk S0_store ''C1'' ''L'' ''D'' ''a'' [0, 1, 0] None =
      (Inr S1_chunk1, snd (ChunkService_create_chunk S0_store ''C1'' ''L'' ''D'' ''a'' [0, 1, 0] None))"
    by (simp add: ChunkService_create_chunk_def S0_store_def S1_defs repo_get_library_def
        repo_get_document_def lookup_def validate_embedding_dimensions_def Let_def or_empty_def
        split: option.splits)
  have b: "ChunkService_create_chunk S1_store ''C3'' ''L'' ''D'' ''c'' [1, 0] None =
             (Inl (DimensionalityMismatchException 3 2), S1_store) \<and>
           ChunkService_update_chunk S1_store ''C1'' None (Some [1, 0]) None =
             (Inl (DimensionalityMismatchException 3 2), S1_store)"
    using chunk_dimension_enforcement [OF _ l1, of "[1, 0]" "''D''" "''C3''" "''c''" None
        "''C1''" None None] d1 c1 e
    by simp
  have g: "(\<exists>c' s'. ChunkService_create_chunk S1_store ''C3'' ''L'' ''D'' ''c'' [0, 0, 1] None =
            (Inr c', s') \<and>
         repo_get_chunk s' ''C3'' = Some c' \<and> embedding c' = [0, 0, 1] \<and>
         repo_get_library s' ''L'' = Some S1_library) \<and>
     (\<exists>c' s'. ChunkService_update_chunk S1_store ''C1'' None (Some [0, 0, 1]) None =
            (Inr c', s') \<and>
         repo_get_chunk s' ''C1'' = Some c' \<and> embedding c' = [0, 0, 1] \<and>
         repo_get_library s' ''L'' = Some S1_library)"
    using chunk_dimension_enforcement [OF _ l1, of "[0, 0, 1]" "''D''" "''C3''" "''c''" None
        "''C1''" None None] d1 c1 e
    by simp
  from a c have "\<exists>s'. ChunkService_create_chunk S0_store ''C1'' ''L'' ''D'' ''a'' [0, 1, 0] None =
            (Inr S1_chunk1, s') \<and>
         repo_get_chunk s' ''C1'' = Some S1_chunk1 \<and>
         repo_get_library s' ''L'' = Some S1_library"
    by auto
  with b g show ?thesis by simp
qed

subsection \<open>C10: update\_chunk on a dimension error\<close>

text \<open>
  C10 (as stated: an update with a new embedding of a different length raises
  DimensionMismatch and changes nothing). The empty embedding has a different length
  from the frozen 3, yet \<^verbatim>\<open>if not embedding: return\<close> lets it pass the validation:
  the update returns the chunk and stores it with the empty embedding.
\<close>

theorem update_chunk_empty_embedding_counterexample:
  "repo_get_chunk S1_store ''C1'' = Some S1_chunk1 \<and>
   repo_get_document S1_store (document_id S1_chunk1) = Some S1_document \<and>
   repo_get_library S1_store (library_id S1_document) = Some S1_library \<and>
   embedding_dim S1_library = Some 3 \<and> int (length ([] :: real list)) \<noteq> 3 \<and>
   fst (ChunkService_update_chunk S1_store ''C1'' None (Some []) None) =
     Inr (S1_chunk1\<lparr>embedding := []\<rparr>) \<and>
   repo_get_chunk (snd (ChunkService_update_chunk S1_store ''C1'' None (Some []) None)) ''C1'' =
     Some (S1_chunk1\<lparr>embedding := []\<rparr>)"
  by (simp add: S1_defs repo_get_library_def repo_get_document_def repo_get_chunk_def
      lookup_def ChunkService_update_chunk_def ChunkService_get_chunk_def
      validate_embedding_dimensions_def repo_update_chunk_def Let_def)

text \<open>
  C10 (amended). For a stored chunk whose document is stored and belongs to a stored
  library with \<open>embedding_dim = n\<close>, an update with a non-empty embedding whose length is
  not \<open>n\<close>, together with any text and metadata arguments, raises
  \<open>DimensionalityMismatchException n (length emb)\<close> and leaves the whole store, hence the
  chunk's text, embedding and metadata and the library's \<open>embedding_dim\<close>, as it was.
\<close>

theorem update_chunk_dimension_atomic:
  assumes "emb \<noteq> []"
    and "repo_get_chunk s k = Some c" "repo_get_document s (document_id c) = Some d"
    and "repo_get_library s (library_id d) = Some L" "embedding_dim L = Some n"
    and "int (length emb) \<noteq> n"
  shows "ChunkService_update_chunk s k txt (Some emb) md =
           (Inl (DimensionalityMismatchException n (int (length emb))), s)"
  using update_chunk_cases [OF assms(1,4,2,3) refl] assms(5,6) by auto

theorem update_chunk_dimension_atomic_witness:
  "[1, 0 :: real] \<noteq> [] \<and>
   repo_get_chunk S1_store ''C1'' = Some S1_chunk1 \<and>
   repo_get_document S1_store (document_id S1_chunk1) = Some S1_document \<and>
   repo_get_library S1_store (library_id S1_document) = Some S1_library \<and>
   embedding_dim S1_library = Some 3 \<and> int (length [1, 0 :: real]) \<noteq> 3 \<and>
   ChunkService_update_chunk S1_store ''C1'' (Some ''new text'') (Some [1, 0])
       (Some [(''lang'', ''en'')]) =
     (Inl (DimensionalityMismatchException 3 2), S1_store)"
proof -
  have h: "[1, 0 :: real] \<noteq> []"
    "repo_get_chunk S1_store ''C1'' = Some S1_chunk1"
    "repo_get_document S1_store (document_id S1_chunk1) = Some S1_document"
    "repo_get_library S1_store (library_id S1_document) = Some S1_library"
    "embedding_dim S1_library = Some 3" "int (length [1, 0 :: real]) \<noteq> 3"
    by (simp_all add: S1_defs repo_get_library_def repo_get_document_def repo_get_chunk_def
        lookup_def)
  from update_chunk_dimension_atomic [OF h] h
  show ?thesis by simp
qed

subsection \<open>C4: stale chunk identifiers in search results\<close>

lemmas S3_defs = S3_store_def S3_chunk3_def S3_chunk4_def S3_store_after_delete_def

lemma lower_simps [simp]: "lower ''linear'' = ''linear''" "lower ''cosine'' = ''cosine''"
  "lower ''kdtree'' = ''kdtree''" "lower ''euclidean'' = ''euclidean''" "lower ''lsh'' = ''lsh''"
  by (simp_all add: lower_def lower_char_def)

lemma S3_registry_value:
  "S3_registry =
     \<lparr>indices = [(''L'', Linear \<lparr>lin_metric = ''cosine'',
          lin_vectors = [[0, 1, 0], [1, 0, 0], [0, 1, 0], [0, 0, 1]],
          lin_ids = [''C1'', ''C2'', ''C3'', ''C4'']\<rparr>)],
      index_metas = [(''L'', \<lparr>algorithm = ''linear'', metric = ''cosine''\<rparr>)]\<rparr>"
  by (simp add: S3_registry_def build_index_def create_index_def IndexAlgorithm_of_def
      DistanceMetric_of_def LinearIndex_init_def repo_list_chunks_def S3_defs S1_defs
      LinearIndex_build_def validate_inputs_def install_index_def empty_registry_def
      example_env_def Let_def)

lemma S3_query:
  "LinearIndex_query \<lparr>lin_metric = ''cosine'',
          lin_vectors = [[0, 1, 0], [1, 0, 0], [0, 1, 0], [0, 0, 1]],
          lin_ids = [''C1'', ''C2'', ''C3'', ''C4'']\<rparr> [0, 1, 0] k =
     (if k \<le> 0 then Inr [] else
     Inr (take (nat k) [(''C1'', 1), (''C3'', 1), (''C2'', 0), (''C4'', 0)]))"
  by (simp add: LinearIndex_query_def validate_query_dim_def cosine_similarity_def norm_vec_def
      dot_def sort_reverse_def Let_def)

text \<open>
  C4 (as stated: with or without metadata filters, a search never returns the identifier
  of a chunk absent from the store). The linear index of \<open>S3_registry\<close> was built while
  chunk \<open>C3\<close> existed; after its deletion a search without filters still returns \<open>C3\<close>.
\<close>

theorem search_without_filters_counterexample:
  "repo_get_chunk S3_store_after_delete ''C3'' = None \<and>
   fst (search example_env S3_store_after_delete S3_registry ''L'' [0, 1, 0] 2 None) =
     Inr [(''C1'', 1), (''C3'', 1)]"
  by (simp add: S3_registry_value search_def get_or_create_index_def S3_query
      calculate_query_k_def DEFAULT_SEARCH_MULTIPLIER_def MAX_SEARCH_BUFFER_def has_filters_def
      Let_def S3_defs S1_defs ChunkService_delete_chunk_def repo_delete_chunk_def
      repo_get_chunk_def lookup_def)

text \<open>
  C4 (amended). For every registry search with a non-empty metadata filter, every
  identifier in the returned list names a chunk that is in the store's chunk table at
  search time. (Without a filter the index's answer is returned as it is; the HTTP search
  handler drops the identifiers whose chunk is missing.)
\<close>

theorem search_with_filters_skips_deleted:
  assumes "has_filters f" "search env s reg lib v k f = (Inr results, reg')"
  shows "list_all (\<lambda>(cid, score). repo_get_chunk s cid \<noteq> None) results"
proof -
  from assms have "results = [] \<or>
      (\<exists>rs. results = take (nat k) (apply_metadata_filters s rs (or_empty f)))"
    by (auto simp: search_def Let_def split: if_splits prod.splits sum.splits option.splits)
  then show ?thesis
  proof
    assume "results = []"
    then show ?thesis by simp
  next
    assume "\<exists>rs. results = take (nat k) (apply_metadata_filters s rs (or_empty f))"
    then obtain rs where "results = take (nat k) (apply_metadata_filters s rs (or_empty f))"
      by blast
    then have "set results \<subseteq> set (apply_metadata_filters s rs (or_empty f))"
      by (simp add: set_take_subset)
    then show ?thesis
      by (auto simp: list_all_iff apply_metadata_filters_def split: option.splits)
  qed
qed

theorem search_with_filters_skips_deleted_witness:
  "has_filters (Some [(''lang'', ''en'')]) \<and>
   search example_env S3_store_after_delete S3_registry ''L'' [0, 1, 0] 5
       (Some [(''lang'', ''en'')]) = (Inr [(''C4'', 0)], S3_registry) \<and>
   list_all (\<lambda>(cid, score). repo_get_chunk S3_store_after_delete cid \<noteq> None) [(''C4'', 0)]"
proof -
  have h: "has_filters (Some [(''lang'', ''en'')])" by (simp add: has_filters_def)
  have s: "search example_env S3_store_after_delete S3_registry ''L'' [0, 1, 0] 5
       (Some [(''lang'', ''en'')]) = (Inr [(''C4'', 0)], S3_registry)"
    by (simp add: S3_registry_value search_def get_or_create_index_def S3_query
      calculate_query_k_def DEFAULT_SEARCH_MULTIPLIER_def MAX_SEARCH_BUFFER_def has_filters_def
      Let_def S3_defs S1_defs ChunkService_delete_chunk_def repo_delete_chunk_def
      repo_get_chunk_def lookup_def apply_metadata_filters_def or_empty_def)
  from search_with_filters_skips_deleted [OF h s] h s show ?thesis by simp
qed

subsection \<open>C6: referential integrity\<close>

lemma referential_integrity_iff:
  "referential_integrity s \<longleftrightarrow>
     (\<forall>d \<in> set (documents s). library_id d \<in> lib_id ` set (libraries s)) \<and>
     (\<forall>c \<in> set (chunks s). document_id c \<in> doc_id ` set (documents s))"
  unfolding referential_integrity_def list_all_iff list_ex_iff image_iff by metis

lemma set_upsert: "set (upsert key e xs) \<subseteq> insert e (set xs)"
  by (induction xs) auto

lemma keys_upsert: "key ` set (upsert key e xs) = insert (key e) (key ` set xs)"
  by (induction xs) auto

lemma ri_repo_library:
  assumes "referential_integrity s"
  shows "referential_integrity (repo_create_library s l)"
    and "referential_integrity (repo_update_library s l)"
  using assms
  by (auto simp: referential_integrity_iff repo_create_library_def repo_update_library_def
      keys_upsert)

lemma ri_repo_document:
  assumes "referential_integrity s" "repo_get_library s (library_id d) \<noteq> None"
  shows "referential_integrity (repo_create_document s d)"
    and "referential_integrity (repo_update_document s d)"
proof -
  from assms(2) obtain l where "lookup lib_id (library_id d) (libraries s) = Some l"
    by (auto simp: repo_get_library_def)
  then have "library_id d \<in> lib_id ` set (libraries s)"
    using lookup_key lookup_mem by (metis image_eqI)
  with assms(1) have "\<forall>x \<in> insert d (set (documents s)). library_id x \<in> lib_id ` set (libraries s)"
    by (auto simp: referential_integrity_iff)
  then have "\<forall>x \<in> set (upsert doc_id d (documents s)). library_id x \<in> lib_id ` set (libraries s)"
    using set_upsert [of doc_id d "documents s"] by blast
  with assms(1) show "referential_integrity (repo_create_document s d)"
    and "referential_integrity (repo_update_document s d)"
    by (auto simp: referential_integrity_iff repo_create_document_def repo_update_document_def
        keys_upsert)
qed

lemma ri_repo_chunk:
  assumes "referential_integrity s" "repo_get_document s (document_id c) \<noteq> None"
  shows "referential_integrity (repo_create_chunk s c)"
    and "referential_integrity (repo_update_chunk s c)"
proof -
  from assms(2) obtain d where "lookup doc_id (document_id c) (documents s) = Some d"
    by (auto simp: repo_get_document_def)
  then have "document_id c \<in> doc_id ` set (documents s)"
    using lookup_key lookup_mem by (metis image_eqI)
  with assms(1) have "\<forall>x \<in> insert c (set (chunks s)). document_id x \<in> doc_id ` set (documents s)"
    by (auto simp: referential_integrity_iff)
  then have "\<forall>x \<in> set (upsert chunk_id c (chunks s)). document_id x \<in> doc_id ` set (documents s)"
    using set_upsert [of chunk_id c "chunks s"] by blast
  with assms(1) show "referential_integrity (repo_create_chunk s c)"
    and "referential_integrity (repo_update_chunk s c)"
    by (auto simp: referential_integrity_iff repo_create_chunk_def repo_update_chunk_def)
qed

lemma ri_repo_delete:
  assumes "referential_integrity s"
  shows "referential_integrity (repo_delete_library s k)"
    and "referential_integrity (repo_delete_document s k)"
    and "referential_integrity (repo_delete_chunk s k)"
proof -
  show "referential_integrity (repo_delete_library s k)"
    using assms unfolding referential_integrity_iff repo_delete_library_def Let_def
    by (simp add: image_iff) metis
  show "referential_integrity (repo_delete_document s k)"
    using assms unfolding referential_integrity_iff repo_delete_document_def Let_def
    by (simp add: image_iff) metis
  show "referential_integrity (repo_delete_chunk s k)"
    using assms unfolding referential_integrity_iff repo_delete_chunk_def
    by simp
qed


lemma lookup_present: "k \<in> key ` set xs \<Longrightarrow> lookup key k xs \<noteq> None"
  unfolding lookup_def by (induction xs) auto

lemma validate_frame:
  assumes "validate_embedding_dimensions s lib emb = (r, s')"
  shows "documents s' = documents s" "chunks s' = chunks s"
    "referential_integrity s \<Longrightarrow> referential_integrity s'"
  using assms ri_repo_library(2)
  by (auto simp: validate_embedding_dimensions_def repo_update_library_def
      split: if_splits option.splits)

lemma ri_create_chunk:
  assumes "referential_integrity s"
  shows "referential_integrity (snd (ChunkService_create_chunk s new_id lib doc txt emb md))"
proof (cases "repo_get_document s doc")
  case None
  then show ?thesis using assms by (simp add: ChunkService_create_chunk_def)
next
  case (Some d)
  obtain r s' where v: "validate_embedding_dimensions s lib emb = (r, s')"
    by (cases "validate_embedding_dimensions s lib emb")
  have ri: "referential_integrity s'" using validate_frame(3) [OF v assms] .
  have "repo_get_document s' doc \<noteq> None"
    using Some validate_frame(1) [OF v] by (simp add: repo_get_document_def)
  then have "referential_integrity (repo_create_chunk s'
      \<lparr>chunk_id = new_id, document_id = doc, chunk_text = txt, embedding = emb,
       chunk_metadata = or_empty md\<rparr>)"
    using ri_repo_chunk(1) [OF ri] by simp
  then show ?thesis
    using Some v ri assms
    by (auto simp: ChunkService_create_chunk_def Let_def split: sum.splits)
qed

lemma ri_update_chunk:
  assumes "referential_integrity s"
  shows "referential_integrity (snd (ChunkService_update_chunk s k txt emb md))"
proof (cases "repo_get_chunk s k")
  case None
  then show ?thesis
    using assms by (simp add: ChunkService_update_chunk_def ChunkService_get_chunk_def)
next
  case (Some c)
  then have "c \<in> set (chunks s)"
    by (auto simp: repo_get_chunk_def dest: lookup_mem)
  then have doc: "document_id c \<in> doc_id ` set (documents s)"
    using assms by (simp add: referential_integrity_iff)
  have step: "referential_integrity (repo_update_chunk s' c')"
    if "referential_integrity s'" "documents s' = documents s" "document_id c' = document_id c"
    for s' c'
  proof -
    have "repo_get_document s' (document_id c') \<noteq> None"
      using doc that(2,3) lookup_present [of "document_id c" doc_id "documents s"]
      by (simp add: repo_get_document_def)
    then show ?thesis using ri_repo_chunk(2) [OF that(1)] by simp
  qed
  have fields: "document_id (case md of None \<Rightarrow> (case txt of None \<Rightarrow> c1
        | Some t \<Rightarrow> c1\<lparr>chunk_text := t\<rparr>)
      | Some m \<Rightarrow> (case txt of None \<Rightarrow> c1
        | Some t \<Rightarrow> c1\<lparr>chunk_text := t\<rparr>)\<lparr>chunk_metadata := m\<rparr>) = document_id c1" for c1
    by (auto split: option.splits)
  show ?thesis
  proof (cases emb)
    case None
    then show ?thesis
      using Some assms step [of s] 
      by (simp add: ChunkService_update_chunk_def ChunkService_get_chunk_def Let_def fields)
  next
    case (Some v)
    note emb = this
    show ?thesis
    proof (cases "repo_get_document s (document_id c)")
      case None
      then show ?thesis
        using \<open>repo_get_chunk s k = Some c\<close> emb assms step [of s]
        by (simp add: ChunkService_update_chunk_def ChunkService_get_chunk_def Let_def fields)
    next
      case (Some d)
      obtain r s' where val: "validate_embedding_dimensions s (library_id d) v = (r, s')"
        by (cases "validate_embedding_dimensions s (library_id d) v")
      show ?thesis
        using \<open>repo_get_chunk s k = Some c\<close> emb Some val validate_frame [OF val] assms
          step [of s']
        by (cases r)
          (simp_all add: ChunkService_update_chunk_def ChunkService_get_chunk_def Let_def fields)
    qed
  qed
qed

lemma ri_update_document:
  assumes "referential_integrity s"
  shows "referential_integrity (snd (DocumentService_update_document s k ttl description md))"
proof (cases "repo_get_document s k")
  case None
  then show ?thesis
    using assms by (simp add: DocumentService_update_document_def DocumentService_get_document_def)
next
  case (Some d)
  then have "d \<in> set (documents s)"
    by (auto simp: repo_get_document_def dest: lookup_mem)
  then have "library_id d \<in> lib_id ` set (libraries s)"
    using assms by (simp add: referential_integrity_iff)
  then have lib: "repo_get_library s (library_id d) \<noteq> None"
    using lookup_present [of "library_id d" lib_id "libraries s"] by (simp add: repo_get_library_def)
  have "referential_integrity (repo_update_document s d')" if "library_id d' = library_id d" for d'
    using ri_repo_document(2) [OF assms, of d'] lib that by simp
  moreover have "library_id (case md of None \<Rightarrow> (case description of None \<Rightarrow>
        (case ttl of None \<Rightarrow> d | Some t \<Rightarrow> d\<lparr>title := t\<rparr>)
        | Some x \<Rightarrow> (case ttl of None \<Rightarrow> d | Some t \<Rightarrow> d\<lparr>title := t\<rparr>)\<lparr>doc_description := Some x\<rparr>)
      | Some m \<Rightarrow> (case description of None \<Rightarrow>
        (case ttl of None \<Rightarrow> d | Some t \<Rightarrow> d\<lparr>title := t\<rparr>)
        | Some x \<Rightarrow> (case ttl of None \<Rightarrow> d | Some t \<Rightarrow> d\<lparr>title := t\<rparr>)\<lparr>doc_description := Some x\<rparr>)
          \<lparr>doc_metadata := m\<rparr>) = library_id d"
    by (auto split: option.splits)
  ultimately show ?thesis
    using Some
    by (simp add: DocumentService_update_document_def DocumentService_get_document_def Let_def)
qed

lemma ri_service_step:
  assumes "referential_integrity s"
  shows "referential_integrity (fst (service_step (s, r) op))"
proof (cases op)
  case (CreateLibrary new_id name description md)
  then show ?thesis
    using ri_repo_library(1) [OF assms] by (simp add: LibraryService_create_library_def Let_def)
next
  case (UpdateLibrary k name description md)
  then show ?thesis
    using ri_repo_library(2) [OF assms] assms
    by (simp add: LibraryService_update_library_def Let_def split: sum.splits)
next
  case (DeleteLibrary k)
  then show ?thesis
    using ri_repo_delete(1) [OF assms] by (simp add: LibraryService_delete_library_def)
next
  case (DeleteLibraryCascade k)
  then show ?thesis
    using ri_repo_delete(1) [OF assms]
    by (simp add: LibraryService_delete_library_cascade_def LibraryService_delete_library_def)
next
  case (CreateDocument new_id lib ttl description md)
  then show ?thesis
    using ri_repo_document(1) [OF assms, of "\<lparr>doc_id = new_id, library_id = lib, title = ttl,
        doc_description = description, doc_metadata = or_empty md\<rparr>"] assms
    by (simp add: DocumentService_create_document_def Let_def split: option.splits)
next
  case (UpdateDocument k ttl description md)
  then show ?thesis using ri_update_document [OF assms] by simp
next
  case (DeleteDocument k)
  then show ?thesis
    using ri_repo_delete(2) [OF assms] by (simp add: DocumentService_delete_document_def)
next
  case (CreateChunk new_id lib doc ctext emb md)
  then show ?thesis using ri_create_chunk [OF assms] by simp
next
  case (UpdateChunk k ctext emb md)
  then show ?thesis using ri_update_chunk [OF assms] by simp
next
  case (DeleteChunk k)
  then show ?thesis
    using ri_repo_delete(3) [OF assms] by (simp add: ChunkService_delete_chunk_def)
qed (simp_all add: assms)

lemma ri_reachable:
  "referential_integrity s \<Longrightarrow> referential_integrity (fst (foldl service_step (s, r) ops))"
proof (induction ops arbitrary: s r)
  case Nil
  then show ?case by simp
next
  case (Cons op ops)
  obtain s' r' where st: "service_step (s, r) op = (s', r')" by (cases "service_step (s, r) op")
  then have "referential_integrity s'" using ri_service_step [OF Cons.prems, of r op] by simp
  then show ?case using Cons.IH [of s' r'] st by simp
qed

text \<open>
  C6 (as stated: every service-level and store-level operation preserves referential
  integrity). The store's own \<^verbatim>\<open>create_document\<close> and \<^verbatim>\<open>create_chunk\<close> write whatever
  record they are given: on the store of scenario S1, which satisfies the invariant, a
  document naming no stored library, or a chunk naming no stored document, breaks it.
\<close>

theorem store_level_create_breaks_integrity_counterexample:
  "referential_integrity S1_store \<and>
   \<not> referential_integrity (repo_create_document S1_store
        \<lparr>doc_id = ''D2'', library_id = ''no such library'', title = ''t'',
         doc_description = None, doc_metadata = []\<rparr>) \<and>
   \<not> referential_integrity (repo_create_chunk S1_store
        \<lparr>chunk_id = ''C9'', document_id = ''no such document'', chunk_text = ''x'',
         embedding = [0, 0, 1], chunk_metadata = []\<rparr>)"
  by (simp add: referential_integrity_def S1_defs repo_create_document_def repo_create_chunk_def)

text \<open>
  C6 (amended). Referential integrity holds in every state reached from the empty store
  by service-level operations (create, get, list, update and delete of libraries,
  documents and chunks, and the cascading library delete), taken one at a time; and from
  any store that satisfies it, it is preserved by every service-level operation, by the
  store-level create and update of a library and by the store-level deletes of a library,
  a document and a chunk. The store-level create and update of a document (of a chunk)
  check nothing and preserve it when the record's \<open>library_id\<close> (\<open>document_id\<close>) names a
  stored library (document).
\<close>

theorem referential_integrity_preserved:
  "referential_integrity (fst (foldl service_step (empty_store, empty_registry) ops)) \<and>
   (referential_integrity s \<longrightarrow>
      referential_integrity (fst (service_step (s, r) op)) \<and>
      referential_integrity (repo_create_library s l) \<and>
      referential_integrity (repo_update_library s l) \<and>
      referential_integrity (repo_delete_library s k) \<and>
      referential_integrity (repo_delete_document s k) \<and>
      referential_integrity (repo_delete_chunk s k) \<and>
      (repo_get_library s (library_id d) \<noteq> None \<longrightarrow>
         referential_integrity (repo_create_document s d) \<and>
         referential_integrity (repo_update_document s d)) \<and>
      (repo_get_document s (document_id c) \<noteq> None \<longrightarrow>
         referential_integrity (repo_create_chunk s c) \<and>
         referential_integrity (repo_update_chunk s c)))"
proof -
  have "referential_integrity empty_store"
    by (simp add: referential_integrity_def empty_store_def)
  then have "referential_integrity (fst (foldl service_step (empty_store, empty_registry) ops))"
    by (rule ri_reachable)
  moreover have "referential_integrity (fst (service_step (s, r) op))"
    "referential_integrity (repo_create_library s l)"
    "referential_integrity (repo_update_library s l)"
    "referential_integrity (repo_delete_library s k)"
    "referential_integrity (repo_delete_document s k)"
    "referential_integrity (repo_delete_chunk s k)"
    if "referential_integrity s"
    using that ri_service_step ri_repo_library ri_repo_delete by simp_all
  moreover have "referential_integrity (repo_create_document s d)"
    "referential_integrity (repo_update_document s d)"
    if "referential_integrity s" "repo_get_library s (library_id d) \<noteq> None"
    using ri_repo_document [OF that] by simp_all
  moreover have "referential_integrity (repo_create_chunk s c)"
    "referential_integrity (repo_update_chunk s c)"
    if "referential_integrity s" "repo_get_document s (document_id c) \<noteq> None"
    using ri_repo_chunk [OF that] by simp_all
  ultimately show ?thesis by simp
qed

theorem referential_integrity_preserved_witness:
  "referential_integrity S1_store \<and>
   repo_get_library S1_store (library_id (S1_document\<lparr>doc_id := ''D2''\<rparr>)) \<noteq> None \<and>
   repo_get_document S1_store (document_id (S1_chunk1\<lparr>chunk_id := ''C3''\<rparr>)) \<noteq> None \<and>
   referential_integrity
     (fst (service_step (S1_store, empty_registry) (DeleteLibraryCascade ''L''))) \<and>
   referential_integrity (repo_delete_document S1_store ''D'') \<and>
   referential_integrity (repo_create_document S1_store (S1_document\<lparr>doc_id := ''D2''\<rparr>)) \<and>
   referential_integrity (repo_create_chunk S1_store (S1_chunk1\<lparr>chunk_id := ''C3''\<rparr>))"
proof -
  have h: "referential_integrity S1_store"
    "repo_get_library S1_store (library_id (S1_document\<lparr>doc_id := ''D2''\<rparr>)) \<noteq> None"
    "repo_get_document S1_store (document_id (S1_chunk1\<lparr>chunk_id := ''C3''\<rparr>)) \<noteq> None"
    by (simp_all add: referential_integrity_def S1_defs repo_get_library_def
        repo_get_document_def lookup_def)
  have "referential_integrity S1_store \<longrightarrow>
      referential_integrity
        (fst (service_step (S1_store, empty_registry) (DeleteLibraryCascade ''L''))) \<and>
      referential_integrity (repo_create_library S1_store S1_library) \<and>
      referential_integrity (repo_update_library S1_store S1_library) \<and>
      referential_integrity (repo_delete_library S1_store ''D'') \<and>
      referential_integrity (repo_delete_document S1_store ''D'') \<and>
      referential_integrity (repo_delete_chunk S1_store ''D'') \<and>
      (repo_get_library S1_store (library_id (S1_document\<lparr>doc_id := ''D2''\<rparr>)) \<noteq> None \<longrightarrow>
         referential_integrity (repo_create_document S1_store (S1_document\<lparr>doc_id := ''D2''\<rparr>)) \<and>
         referential_integrity (repo_update_document S1_store (S1_document\<lparr>doc_id := ''D2''\<rparr>))) \<and>
      (repo_get_document S1_store (document_id (S1_chunk1\<lparr>chunk_id := ''C3''\<rparr>)) \<noteq> None \<longrightarrow>
         referential_integrity (repo_create_chunk S1_store (S1_chunk1\<lparr>chunk_id := ''C3''\<rparr>)) \<and>
         referential_integrity (repo_update_chunk S1_store (S1_chunk1\<lparr>chunk_id := ''C3''\<rparr>)))"
    using referential_integrity_preserved [of "[]" S1_store empty_registry
      "DeleteLibraryCascade ''L''" S1_library "''D''" "S1_document\<lparr>doc_id := ''D2''\<rparr>"
      "S1_chunk1\<lparr>chunk_id := ''C3''\<rparr>"] by (rule conjunct2)
  with h show ?thesis by simp
qed

subsection \<open>C8: loading a snapshot that is missing or broken\<close>

text \<open>
  C8 (as stated: when the file exists but parsing fails, the error propagates and the
  store's three tables are left exactly as they were). The file below is valid JSON whose
  \<^verbatim>\<open>documents\<close> section holds a record without \<^verbatim>\<open>id\<close>: \<^verbatim>\<open>load_snapshot\<close> has already
  replaced the libraries table when the documents comprehension raises \<^verbatim>\<open>KeyError\<close>, so
  the error propagates and the library of scenario S1 is gone.
\<close>

theorem load_malformed_record_counterexample:
  "SnapshotService_load example_env S1_store empty_registry
     (\<lambda>p. if p = ''data/bad.json''
          then Some (Parsed (JObj [(''libraries'', JList []), (''documents'', JList [JObj []]),
                                   (''chunks'', JList [])]))
          else None)
     (Some ''data/bad.json'') =
     (Inl (KeyError ''id''), S1_store\<lparr>libraries := []\<rparr>, empty_registry) \<and>
   libraries S1_store \<noteq> libraries (S1_store\<lparr>libraries := []\<rparr>)"
  by (simp add: SnapshotService_load_def repo_load_snapshot_def table_items_def bind_err_def
      S1_store_def)

text \<open>
  C8 (amended). A load with no path and no file at the default path
  \<^verbatim>\<open>data_dir/snapshot.json\<close> returns successfully and leaves the store and the registry
  unchanged, as does a load of any path at which there is no file; and when the file
  exists but its text is not valid JSON, the error of \<^verbatim>\<open>json.loads\<close> propagates and the
  store's three tables (and the registry) are left exactly as they were.
\<close>

theorem load_missing_or_unparsable:
  "(fs (data_dir env @ ''/snapshot.json'') = None \<longrightarrow>
      SnapshotService_load env s reg fs None = (Inr (), s, reg)) \<and>
   (fs p = None \<longrightarrow> SnapshotService_load env s reg fs (Some p) = (Inr (), s, reg)) \<and>
   (fs p = Some Unparsable \<longrightarrow>
      SnapshotService_load env s reg fs (Some p) = (Inl JSONDecodeError, s, reg))"
  by (simp add: SnapshotService_load_def)

theorem load_missing_or_unparsable_witness:
  "(\<lambda>p. None :: file_content option) (data_dir example_env @ ''/snapshot.json'') = None \<and>
   SnapshotService_load example_env S1_store empty_registry (\<lambda>p. None) None =
     (Inr (), S1_store, empty_registry) \<and>
   (\<lambda>p. Some Unparsable) ''data/snapshot_1.json'' = Some Unparsable \<and>
   SnapshotService_load example_env S1_store empty_registry (\<lambda>p. Some Unparsable)
       (Some ''data/snapshot_1.json'') =
     (Inl JSONDecodeError, S1_store, empty_registry)"
  using load_missing_or_unparsable [of "\<lambda>p. None" example_env S1_store empty_registry
      "''data/snapshot_1.json''"]
    load_missing_or_unparsable [of "\<lambda>p. Some Unparsable" example_env S1_store empty_registry
      "''data/snapshot_1.json''"]
  by simp

subsection \<open>C7: snapshot round trip\<close>

lemma insort_key_map:
  "insort_key f (g x) (map g xs) = map g (insort_key (\<lambda>y. f (g y)) x xs)"
  by (induction xs) auto

lemma sort_key_map: "sort_key f (map g xs) = map g (sort_key (\<lambda>y. f (g y)) xs)"
  by (induction xs) (auto simp: insort_key_map)

lemma map_of_sort_key:
  assumes "distinct (map fst xs)"
  shows "map_of (sort_key fst xs) = map_of xs"
proof -
  have d: "distinct (map fst (sort_key fst xs))"
    using assms by (simp add: distinct_map)
  have "set (sort_key fst xs) = set xs" by simp
  then show ?thesis using map_of_inject_set [OF d assms] by blast
qed

lemma map_of_sorted_fields:
  assumes "distinct (map fst kvs)"
  shows "map_of (sort_key fst (map (\<lambda>kv. (fst kv, g (snd kv))) kvs)) k =
           map_option g (map_of kvs k)"
proof -
  have "sort_key fst (map (\<lambda>kv. (fst kv, g (snd kv))) kvs) =
          map (\<lambda>kv. (fst kv, g (snd kv))) (sort_key fst kvs)"
    by (simp add: sort_key_map)
  moreover have "map_of (map (\<lambda>kv. (fst kv, g (snd kv))) ys) k = map_option g (map_of ys k)"
    for ys by (induction ys) auto
  ultimately show ?thesis by (simp add: map_of_sort_key [OF assms])
qed

lemma parse_all_dumped_metadata:
  "parse_all (\<lambda>kv. bind_err (parse_str (snd kv)) (\<lambda>v. Inr (fst kv, v)))
     (map (\<lambda>kv. (fst kv, JStr (snd kv))) m) = Inr m"
  by (induction m) (auto simp: bind_err_def)

lemma parse_sorted_metadata:
  "parse_metadata (sort_keys (dump_metadata m)) = Inr (sort_key fst m)"
proof -
  have "map (\<lambda>kv. (fst kv, sort_keys (snd kv))) (map (\<lambda>kv. (fst kv, JStr (snd kv))) m) =
        map (\<lambda>kv. (fst kv, JStr (snd kv))) m"
    by simp
  then have "sort_keys (dump_metadata m) =
      JObj (map (\<lambda>kv. (fst kv, JStr (snd kv))) (sort_key fst m))"
    by (simp add: dump_metadata_def sort_key_map o_def)
  then show ?thesis by (simp add: parse_all_dumped_metadata)
qed

lemma parse_all_floats: "parse_all parse_float (map JNum xs) = Inr xs"
  by (induction xs) (auto simp: bind_err_def)

lemma sort_keys_optional_str [simp]: "sort_keys (dump_optional_str x) = dump_optional_str x"
  by (cases x) (simp_all add: dump_optional_str_def)

lemma parse_dumped_optional_str [simp]: "parse_optional_str (dump_optional_str x) = Inr x"
  by (cases x) (simp_all add: dump_optional_str_def)

lemma sort_keys_floats [simp]: "sort_keys \<circ> JNum = JNum"
  by (rule ext) simp

lemma library_roundtrip:
  "\<exists>kvs. sort_keys (library_model_dump l) = JObj kvs \<and> map_of kvs ''id'' \<noteq> None \<and>
         Library_of kvs = Inr (canon_library l)"
proof -
  let ?F = "[(''id'', JStr (lib_id l)), (''name'', JStr (lib_name l)),
           (''description'', dump_optional_str (lib_description l)),
           (''metadata'', dump_metadata (lib_metadata l)),
           (''embedding_dim'',
              (case embedding_dim l of None \<Rightarrow> JNull | Some n \<Rightarrow> JNum (of_int n)))]"
  let ?K = "sort_key fst (map (\<lambda>kv. (fst kv, sort_keys (snd kv))) ?F)"
  have d: "distinct (map fst ?F)" by simp
  have m: "map_of ?K k = map_option sort_keys (map_of ?F k)" for k
    by (rule map_of_sorted_fields [OF d])
  have e: "parse_optional_int (sort_keys (case embedding_dim l of None \<Rightarrow> JNull
      | Some n \<Rightarrow> JNum (of_int n))) = Inr (embedding_dim l)"
    by (cases "embedding_dim l") simp_all
  have "Library_of ?K = Inr (canon_library l)"
    unfolding Library_of_def required_def optional_def m
    by (simp add: bind_err_def parse_sorted_metadata e canon_library_def)
  moreover have "map_of ?K ''id'' \<noteq> None" unfolding m by simp
  moreover have "sort_keys (library_model_dump l) = JObj ?K"
    by (simp add: library_model_dump_def)
  ultimately show ?thesis by blast
qed


lemma document_roundtrip:
  "\<exists>kvs. sort_keys (document_model_dump d) = JObj kvs \<and> map_of kvs ''id'' \<noteq> None \<and>
         Document_of kvs = Inr (canon_document d)"
proof -
  let ?F = "[(''id'', JStr (doc_id d)), (''library_id'', JStr (library_id d)),
           (''title'', JStr (title d)),
           (''description'', dump_optional_str (doc_description d)),
           (''metadata'', dump_metadata (doc_metadata d))]"
  let ?K = "sort_key fst (map (\<lambda>kv. (fst kv, sort_keys (snd kv))) ?F)"
  have d: "distinct (map fst ?F)" by simp
  have m: "map_of ?K k = map_option sort_keys (map_of ?F k)" for k
    by (rule map_of_sorted_fields [OF d])
  have "Document_of ?K = Inr (canon_document d)"
    unfolding Document_of_def required_def optional_def m
    by (simp add: bind_err_def parse_sorted_metadata canon_document_def)
  moreover have "map_of ?K ''id'' \<noteq> None" unfolding m by simp
  moreover have "sort_keys (document_model_dump d) = JObj ?K"
    by (simp add: document_model_dump_def)
  ultimately show ?thesis by blast
qed

lemma chunk_roundtrip:
  "\<exists>kvs. sort_keys (chunk_model_dump c) = JObj kvs \<and> map_of kvs ''id'' \<noteq> None \<and>
         Chunk_of kvs = Inr (canon_chunk c)"
proof -
  let ?F = "[(''id'', JStr (chunk_id c)), (''document_id'', JStr (document_id c)),
           (''text'', JStr (chunk_text c)),
           (''embedding'', JList (map JNum (embedding c))),
           (''metadata'', dump_metadata (chunk_metadata c))]"
  let ?K = "sort_key fst (map (\<lambda>kv. (fst kv, sort_keys (snd kv))) ?F)"
  have d: "distinct (map fst ?F)" by simp
  have m: "map_of ?K k = map_option sort_keys (map_of ?F k)" for k
    by (rule map_of_sorted_fields [OF d])
  have "Chunk_of ?K = Inr (canon_chunk c)"
    unfolding Chunk_of_def required_def optional_def m
    by (simp add: bind_err_def parse_sorted_metadata canon_chunk_def parse_all_floats)
  moreover have "map_of ?K ''id'' \<noteq> None" unfolding m by simp
  moreover have "sort_keys (chunk_model_dump c) = JObj ?K"
    by (simp add: chunk_model_dump_def)
  ultimately show ?thesis by blast
qed

lemma upsert_append: "key e \<notin> key ` set acc \<Longrightarrow> upsert key e acc = acc @ [e]"
  by (induction acc) auto

lemma load_table_roundtrip:
  assumes "\<And>x. \<exists>kvs. j x = JObj kvs \<and> map_of kvs ''id'' \<noteq> None \<and> p kvs = Inr (c x)"
    and "distinct (map key acc @ map (\<lambda>x. key (c x)) xs)"
  shows "load_table p key (map j xs) acc = Inr (acc @ map c xs)"
  using assms(2)
proof (induction xs arbitrary: acc)
  case Nil
  then show ?case by simp
next
  case (Cons x xs)
  from assms(1) [of x] obtain kvs where
    k: "j x = JObj kvs" "map_of kvs ''id'' \<noteq> None" "p kvs = Inr (c x)" by blast
  have fresh: "key (c x) \<notin> key ` set acc" using Cons.prems by auto
  have "distinct (map key (acc @ [c x]) @ map (\<lambda>x. key (c x)) xs)"
    using Cons.prems by auto
  from Cons.IH [OF this] show ?case
    using k by (auto simp: upsert_append [OF fresh])
qed

lemma saved_fields:
  "map_of (sort_key fst (map (\<lambda>kv. (fst kv, sort_keys (snd kv)))
       (repo_snapshot s @ [(''indices'', ix), (''timestamp'', JStr t)]))) k =
   map_option sort_keys
     (map_of (repo_snapshot s @ [(''indices'', ix), (''timestamp'', JStr t)]) k)"
  by (rule map_of_sorted_fields) (simp add: repo_snapshot_def)

lemma load_saved_store:
  assumes "store_wf s"
  shows "repo_load_snapshot s0
           (sort_keys (JObj (repo_snapshot s @ [(''indices'', ix), (''timestamp'', JStr t)]))) =
         (Inr (), s0\<lparr>libraries := map canon_library (libraries s),
                      documents := map canon_document (documents s),
                      chunks := map canon_chunk (chunks s)\<rparr>)"
proof -
  have l: "load_table Library_of lib_id (map (\<lambda>x. sort_keys (library_model_dump x)) (libraries s)) []
      = Inr ([] @ map canon_library (libraries s))"
    using assms
    by (intro load_table_roundtrip library_roundtrip)
      (simp add: store_wf_def canon_library_def)
  have d: "load_table Document_of doc_id (map (\<lambda>x. sort_keys (document_model_dump x)) (documents s)) []
      = Inr ([] @ map canon_document (documents s))"
    using assms
    by (intro load_table_roundtrip document_roundtrip)
      (simp add: store_wf_def canon_document_def)
  have c: "load_table Chunk_of chunk_id (map (\<lambda>x. sort_keys (chunk_model_dump x)) (chunks s)) []
      = Inr ([] @ map canon_chunk (chunks s))"
    using assms
    by (intro load_table_roundtrip chunk_roundtrip)
      (simp add: store_wf_def canon_chunk_def)
  show ?thesis
    using l d c
    by (simp add: repo_load_snapshot_def saved_fields table_items_def bind_err_def
        repo_snapshot_def o_def)
qed


lemma registry_wf_iff:
  "registry_wf reg \<longleftrightarrow>
     distinct (map fst (indices reg)) \<and> distinct (map fst (index_metas reg)) \<and>
     (\<forall>lib idx. map_of (indices reg) lib = Some idx \<longrightarrow>
        index_wf idx \<and>
        map_of (index_metas reg) lib =
          Some \<lparr>algorithm = index_kind idx, metric = index_metric idx\<rparr>) \<and>
     (\<forall>lib m. map_of (index_metas reg) lib = Some m \<longrightarrow> map_of (indices reg) lib \<noteq> None)"
proof (cases "distinct (map fst (indices reg)) \<and> distinct (map fst (index_metas reg))")
  case False
  then show ?thesis by (auto simp: registry_wf_def)
next
  case True
  have "list_all (\<lambda>li. index_wf (snd li) \<and> map_of (index_metas reg) (fst li) =
          Some \<lparr>algorithm = index_kind (snd li), metric = index_metric (snd li)\<rparr>) (indices reg)
      \<longleftrightarrow> (\<forall>lib idx. map_of (indices reg) lib = Some idx \<longrightarrow>
        index_wf idx \<and>
        map_of (index_metas reg) lib =
          Some \<lparr>algorithm = index_kind idx, metric = index_metric idx\<rparr>)"
    using True by (auto simp: list_all_iff map_of_eq_Some_iff)
  moreover have "list_all (\<lambda>lm. map_of (indices reg) (fst lm) \<noteq> None) (index_metas reg)
      \<longleftrightarrow> (\<forall>lib m. map_of (index_metas reg) lib = Some m \<longrightarrow> map_of (indices reg) lib \<noteq> None)"
    using True by (simp add: list_all_iff map_of_eq_Some_iff) fastforce
  ultimately show ?thesis using True by (simp add: registry_wf_def)
qed

lemma index_build_keeps:
  assumes "index_build g idx vectors ids = (r, idx')"
  shows "index_kind idx' = index_kind idx" "index_metric idx' = index_metric idx"
    "index_wf idx \<Longrightarrow> index_wf idx'"
  using assms
  by (cases idx; auto simp: LinearIndex_build_def KDTreeIndex_build_def LSHIndex_build_def
      split: sum.splits prod.splits if_splits option.splits)+

lemma create_index_props:
  assumes "create_index env a m = Inr idx"
  shows "index_kind idx = a \<and> index_metric idx = m \<and> index_wf idx"
proof -
  from assms obtain algo where algo: "IndexAlgorithm_of a = Inr algo"
    by (auto simp: create_index_def split: sum.splits)
  from assms algo obtain me where me: "DistanceMetric_of m = Inr me"
    by (auto simp: create_index_def split: sum.splits)
  have compat: "me \<in> set (ALGORITHM_METRICS algo)"
    using assms algo me by (auto simp: create_index_def split: if_splits)
  have av: "a = IndexAlgorithm_value algo"
    using algo by (auto simp: IndexAlgorithm_of_def split: if_splits)
  have mv: "m = DistanceMetric_value me"
    using me by (auto simp: DistanceMetric_of_def split: if_splits)
  show ?thesis
    using assms algo me compat av mv
    by (cases algo; cases me)
      (auto simp: create_index_def LinearIndex_init_def DistanceMetric_of_def
        split: sum.splits if_splits)
qed

lemma build_index_result:
  assumes "build_index env s reg lib a m = (r, reg')"
  shows "reg' = reg \<or>
     (\<exists>idx. reg' = install_index reg lib idx \<and> index_kind idx = lower a \<and>
        index_metric idx = lower m \<and> index_wf idx)"
proof (cases "create_index env (lower a) (lower m)")
  case (Inl e)
  then show ?thesis using assms by (simp add: build_index_def)
next
  case (Inr index)
  note p = create_index_props [OF Inr]
  let ?cs = "repo_list_chunks s lib"
  let ?vp = "map (\<lambda>c. (embedding c, chunk_id c)) (filter (\<lambda>c. embedding c \<noteq> []) ?cs)"
  let ?built = "(if ?cs \<noteq> []
                        then (if ?vp \<noteq> []
                              then index_build (gauss env) index
                                     (map fst ?vp) (map snd ?vp)
                              else index_build (gauss env) index [] [])
                        else (Inr (), index))"
  obtain rb ib where b: "?built = (rb, ib)" by (cases ?built)
  have "index_kind ib = lower a \<and> index_metric ib = lower m \<and> index_wf ib"
    using b p index_build_keeps by (auto split: if_splits)
  moreover have "reg' = reg \<or> reg' = install_index reg lib ib"
    using assms Inr b by (cases rb) (simp_all add: build_index_def Let_def)
  ultimately show ?thesis by blast
qed

lemma map_of_install:
  "map_of (indices (install_index reg lib idx)) = (map_of (indices reg))(lib \<mapsto> idx)"
  "map_of (index_metas (install_index reg lib idx)) =
     (map_of (index_metas reg))(lib \<mapsto> \<lparr>algorithm = index_kind idx, metric = index_metric idx\<rparr>)"
  by (simp_all add: install_index_def update_conv')


lemma lower_index_kind: "lower (index_kind idx) = index_kind idx"
  by (cases idx) (simp_all add: lower_def lower_char_def)

lemma lower_index_metric: "index_wf idx \<Longrightarrow> lower (index_metric idx) = index_metric idx"
  by (cases idx) (auto simp: lower_def lower_char_def)

lemma build_index_keeps:
  assumes wf: "registry_wf reg0" and k: "keeps_indices reg0 reg"
    and m: "map_of (index_metas reg0) lib = Some \<lparr>algorithm = a, metric = m\<rparr>"
  shows "keeps_indices reg0 (snd (build_index env s reg lib a m))"
proof -
  from wf m obtain idx0 where i0: "map_of (indices reg0) lib = Some idx0"
    unfolding registry_wf_iff by blast
  with wf have w0: "index_wf idx0"
    and m0: "map_of (index_metas reg0) lib =
      Some \<lparr>algorithm = index_kind idx0, metric = index_metric idx0\<rparr>"
    unfolding registry_wf_iff by blast+
  from m m0 have am: "a = index_kind idx0" "m = index_metric idx0" by simp_all
  have low: "lower a = a" "lower m = m"
    using am lower_index_kind lower_index_metric [OF w0] by simp_all
  obtain r reg' where b: "build_index env s reg lib a m = (r, reg')"
    by (cases "build_index env s reg lib a m")
  from build_index_result [OF b] show ?thesis
  proof
    assume "reg' = reg"
    then show ?thesis using k b by simp
  next
    assume "\<exists>idx. reg' = install_index reg lib idx \<and> index_kind idx = lower a \<and>
        index_metric idx = lower m \<and> index_wf idx"
    then obtain idx where idx: "reg' = install_index reg lib idx" "index_kind idx = a"
      "index_metric idx = m" using low by auto
    have "keeps_indices reg0 (install_index reg lib idx)"
      unfolding keeps_indices_def map_of_install
      using k idx(2,3) m am i0 by (auto simp: keeps_indices_def)
    then show ?thesis using b idx(1) by simp
  qed
qed

lemma rebuild_loop_keeps:
  assumes wf: "registry_wf reg0"
    and entries: "\<forall>e \<in> set es. \<exists>lib a m kvs. e = (lib, JObj kvs) \<and>
        meta_field kvs ''algorithm'' (default_index env) = Some a \<and>
        meta_field kvs ''metric'' (default_metric env) = Some m \<and>
        map_of (index_metas reg0) lib = Some \<lparr>algorithm = a, metric = m\<rparr>"
    and k: "keeps_indices reg0 reg"
  shows "keeps_indices reg0 (rebuild_loop env s reg es)"
  using entries k
proof (induction es arbitrary: reg)
  case Nil
  then show ?case by simp
next
  case (Cons e es)
  from Cons.prems(1) obtain lib a m kvs where e: "e = (lib, JObj kvs)"
    "meta_field kvs ''algorithm'' (default_index env) = Some a"
    "meta_field kvs ''metric'' (default_metric env) = Some m"
    "map_of (index_metas reg0) lib = Some \<lparr>algorithm = a, metric = m\<rparr>"
    by auto
  have "keeps_indices reg0 (snd (build_index env s reg lib a m))"
    by (rule build_index_keeps [OF wf Cons.prems(2) e(4)])
  from Cons.IH [OF _ this] Cons.prems(1) show ?case
    using e by simp
qed

lemma saved_index_entries:
  assumes "registry_wf reg"
  shows "\<exists>es. sort_keys (dump_index_metadata (get_index_metadata reg)) = JObj es \<and>
     (\<forall>e \<in> set es. \<exists>lib a m kvs. e = (lib, JObj kvs) \<and>
        meta_field kvs ''algorithm'' d1 = Some a \<and>
        meta_field kvs ''metric'' d2 = Some m \<and>
        map_of (index_metas reg) lib = Some \<lparr>algorithm = a, metric = m\<rparr>)"
proof -
  let ?inner = "\<lambda>lm. [(''algorithm'', JStr (algorithm (snd lm))),
                       (''metric'', JStr (metric (snd lm)))]"
  let ?es = "sort_key fst (map (\<lambda>kv. (fst kv, sort_keys (snd kv)))
      (map (\<lambda>lm. (fst lm, JObj (?inner lm))) (index_metas reg)))"
  have dist: "distinct (map fst (index_metas reg))"
    using assms by (simp add: registry_wf_def)
  have eq: "sort_keys (dump_index_metadata (get_index_metadata reg)) = JObj ?es"
    by (simp add: dump_index_metadata_def get_index_metadata_def)
  have "\<exists>lib a m kvs. e = (lib, JObj kvs) \<and>
        meta_field kvs ''algorithm'' d1 = Some a \<and>
        meta_field kvs ''metric'' d2 = Some m \<and>
        map_of (index_metas reg) lib = Some \<lparr>algorithm = a, metric = m\<rparr>"
    if "e \<in> set ?es" for e
  proof -
    from that obtain lm where lm: "lm \<in> set (index_metas reg)"
      "e = (fst lm, sort_keys (JObj (?inner lm)))"
      by auto
    let ?kvs = "sort_key fst (map (\<lambda>kv. (fst kv, sort_keys (snd kv))) (?inner lm))"
    have mo: "map_of ?kvs k = map_option sort_keys (map_of (?inner lm) k)" for k
      by (rule map_of_sorted_fields) simp
    have "e = (fst lm, JObj ?kvs)" using lm(2) by simp
    moreover have "meta_field ?kvs ''algorithm'' d1 = Some (algorithm (snd lm))"
      "meta_field ?kvs ''metric'' d2 = Some (metric (snd lm))"
      unfolding meta_field_def mo by simp_all
    moreover have "map_of (index_metas reg) (fst lm) = Some (snd lm)"
      using lm(1) dist by simp
    then have "map_of (index_metas reg) (fst lm) =
        Some \<lparr>algorithm = algorithm (snd lm), metric = metric (snd lm)\<rparr>"
      by simp
    ultimately show ?thesis by blast
  qed
  with eq show ?thesis by blast
qed

lemma list_all2_canon:
  "list_all2 library_eq (map canon_library ls) ls"
  "list_all2 document_eq (map canon_document ds) ds"
  "list_all2 chunk_eq (map canon_chunk cs) cs"
  by (simp_all add: list_all2_map1 list_all2_same library_eq_def document_eq_def chunk_eq_def
      canon_library_def canon_document_def canon_chunk_def dict_eq_def)

lemma listings_canon:
  assumes "libraries s' = map canon_library (libraries s)"
    "documents s' = map canon_document (documents s)"
    "chunks s' = map canon_chunk (chunks s)"
  shows "repo_list_libraries s' = map canon_library (repo_list_libraries s)"
    "repo_list_documents s' lib = map canon_document (repo_list_documents s lib)"
    "repo_list_chunks s' lib = map canon_chunk (repo_list_chunks s lib)"
proof -
  show "repo_list_libraries s' = map canon_library (repo_list_libraries s)"
    using assms by (simp add: repo_list_libraries_def)
  show d: "repo_list_documents s' lib = map canon_document (repo_list_documents s lib)"
    using assms by (simp add: repo_list_documents_def filter_map o_def canon_document_def)
  have "map doc_id (filter (\<lambda>d. library_id d = lib) (documents s')) =
      map doc_id (filter (\<lambda>d. library_id d = lib) (documents s))"
    using d by (simp add: repo_list_documents_def canon_document_def o_def)
  then show "repo_list_chunks s' lib = map canon_chunk (repo_list_chunks s lib)"
    using assms(3) by (simp add: repo_list_chunks_def Let_def filter_map o_def canon_chunk_def)
qed


lemma load_after_save:
  assumes "store_wf s" "registry_wf reg"
  shows "\<exists>s' reg'.
     SnapshotService_load env s reg
       (snd (SnapshotService_save env s reg fs path stamp iso_now))
       (Some (fst (SnapshotService_save env s reg fs path stamp iso_now))) = (Inr (), s', reg') \<and>
     libraries s' = map canon_library (libraries s) \<and>
     documents s' = map canon_document (documents s) \<and>
     chunks s' = map canon_chunk (chunks s) \<and>
     keeps_indices reg reg'"
proof -
  let ?data = "repo_snapshot s @
                   [(''indices'', dump_index_metadata (get_index_metadata reg)),
                    (''timestamp'', JStr iso_now)]"
  let ?K = "sort_key fst (map (\<lambda>kv. (fst kv, sort_keys (snd kv))) ?data)"
  let ?s1 = "s\<lparr>libraries := map canon_library (libraries s),
                      documents := map canon_document (documents s),
                      chunks := map canon_chunk (chunks s)\<rparr>"
  from saved_index_entries [OF assms(2)] obtain es where
    es: "sort_keys (dump_index_metadata (get_index_metadata reg)) = JObj es"
    and ent: "\<forall>e \<in> set es. \<exists>lib a m kvs. e = (lib, JObj kvs) \<and>
        meta_field kvs ''algorithm'' (default_index env) = Some a \<and>
        meta_field kvs ''metric'' (default_metric env) = Some m \<and>
        map_of (index_metas reg) lib = Some \<lparr>algorithm = a, metric = m\<rparr>"
    by blast
  have k0: "keeps_indices reg reg" by (simp add: keeps_indices_def)
  have keep: "keeps_indices reg (rebuild_loop env ?s1 reg es)"
    by (rule rebuild_loop_keeps [OF assms(2) ent k0])
  define K where "K = ?K"
  have sk: "sort_keys (JObj ?data) = JObj K" by (simp add: K_def)
  have ix: "map_of K ''indices'' = Some (JObj es)"
    unfolding K_def saved_fields using es by (simp add: repo_snapshot_def)
  have ld: "repo_load_snapshot s (JObj K) = (Inr (), ?s1)"
    using load_saved_store [OF assms(1), of s "dump_index_metadata (get_index_metadata reg)"
        iso_now] unfolding sk .
  have "SnapshotService_load env s reg
       (snd (SnapshotService_save env s reg fs path stamp iso_now))
       (Some (fst (SnapshotService_save env s reg fs path stamp iso_now))) =
     (Inr (), ?s1, rebuild_loop env ?s1 reg es)"
    unfolding SnapshotService_save_def SnapshotService_load_def Let_def sk
    by (simp add: ld ix rebuild_indices_def del: sort_keys.simps)
  then show ?thesis using keep by simp
qed

text \<open>
  Well-formedness is an invariant: it holds initially and every operation on the store
  and on the registry keeps it.
\<close>

lemma distinct_upsert:
  "distinct (map key xs) \<Longrightarrow> distinct (map key (upsert key e xs))"
proof (induction xs)
  case Nil
  then show ?case by simp
next
  case (Cons x xs)
  have "key x \<notin> key ` set (upsert key e xs)" if "key x \<noteq> key e"
    using Cons.prems that by (simp add: keys_upsert)
  then show ?case using Cons by auto
qed

lemma store_wf_repo:
  assumes "store_wf s"
  shows "store_wf (repo_create_library s l)" "store_wf (repo_update_library s l)"
    "store_wf (repo_create_document s d)" "store_wf (repo_update_document s d)"
    "store_wf (repo_create_chunk s c)" "store_wf (repo_update_chunk s c)"
    "store_wf (repo_delete_library s k)" "store_wf (repo_delete_document s k)"
    "store_wf (repo_delete_chunk s k)"
  using assms
  by (simp_all add: store_wf_def repo_create_library_def repo_update_library_def
      repo_create_document_def repo_update_document_def repo_create_chunk_def
      repo_update_chunk_def repo_delete_library_def repo_delete_document_def
      repo_delete_chunk_def Let_def distinct_upsert distinct_map_filter)

lemma store_wf_validate:
  "store_wf s \<Longrightarrow> store_wf (snd (validate_embedding_dimensions s lib emb))"
  by (auto simp: validate_embedding_dimensions_def store_wf_repo split: option.splits)

lemma store_wf_service_step:
  assumes "store_wf s"
  shows "store_wf (fst (service_step (s, r) op))"
proof (cases op)
  case (CreateLibrary new_id name description md)
  then show ?thesis
    using store_wf_repo(1) [OF assms] by (simp add: LibraryService_create_library_def Let_def)
next
  case (UpdateLibrary k name description md)
  then show ?thesis
    using store_wf_repo(2) [OF assms] assms
    by (simp add: LibraryService_update_library_def Let_def split: sum.splits)
next
  case (DeleteLibrary k)
  then show ?thesis
    using store_wf_repo(7) [OF assms] by (simp add: LibraryService_delete_library_def)
next
  case (DeleteLibraryCascade k)
  then show ?thesis
    using store_wf_repo(7) [OF assms]
    by (simp add: LibraryService_delete_library_cascade_def LibraryService_delete_library_def)
next
  case (CreateDocument new_id lib ttl description md)
  then show ?thesis
    using store_wf_repo(3) [OF assms] assms
    by (simp add: DocumentService_create_document_def Let_def split: option.splits)
next
  case (UpdateDocument k ttl description md)
  then show ?thesis
    using store_wf_repo(4) [OF assms] assms
    by (simp add: DocumentService_update_document_def Let_def split: sum.splits)
next
  case (DeleteDocument k)
  then show ?thesis
    using store_wf_repo(8) [OF assms] by (simp add: DocumentService_delete_document_def)
next
  case (CreateChunk new_id lib doc ctext emb md)
  obtain rv sv where v: "validate_embedding_dimensions s lib emb = (rv, sv)"
    by (cases "validate_embedding_dimensions s lib emb")
  then have "store_wf sv" using store_wf_validate [OF assms, of lib emb] by simp
  then show ?thesis
    using CreateChunk v assms store_wf_repo(5)
    by (auto simp: ChunkService_create_chunk_def Let_def split: option.splits sum.splits)
next
  case (UpdateChunk k ctext emb md)
  have "store_wf (snd (validate_embedding_dimensions s lib v))" for lib v
    by (rule store_wf_validate [OF assms])
  then have "\<And>lib v rv sv. validate_embedding_dimensions s lib v = (rv, sv) \<Longrightarrow> store_wf sv"
    by (metis snd_conv)
  then show ?thesis
    using UpdateChunk assms store_wf_repo(6)
    by (auto simp: ChunkService_update_chunk_def Let_def
        split: option.splits sum.splits prod.splits)
next
  case (DeleteChunk k)
  then show ?thesis
    using store_wf_repo(9) [OF assms] by (simp add: ChunkService_delete_chunk_def)
qed (simp_all add: assms)

lemma registry_wf_install:
  assumes "registry_wf reg" "index_wf idx"
  shows "registry_wf (install_index reg lib idx)"
  using assms unfolding registry_wf_iff map_of_install
  by (auto simp: install_index_def distinct_update) blast

lemma registry_wf_clear:
  assumes "registry_wf reg"
  shows "registry_wf (clear_index reg lib)"
  using assms unfolding registry_wf_iff
  by (auto simp: clear_index_def distinct_delete delete_conv') blast

lemma registry_wf_build_index:
  assumes "registry_wf reg"
  shows "registry_wf (snd (build_index env s reg lib a m))"
proof -
  obtain r reg' where b: "build_index env s reg lib a m = (r, reg')"
    by (cases "build_index env s reg lib a m")
  from build_index_result [OF b] show ?thesis
    using assms b registry_wf_install by auto
qed

lemma registry_wf_search:
  assumes "registry_wf reg"
  shows "registry_wf (snd (search env s reg lib v k f))"
proof -
  have "registry_wf (snd (get_or_create_index env s reg lib))"
    using assms
    by (auto simp: get_or_create_index_def Let_def LinearIndex_init_def LinearIndex_build_def
        DistanceMetric_of_def intro!: registry_wf_install
        split: option.splits sum.splits prod.splits if_splits)
  then show ?thesis
    using assms
    by (auto simp: search_def Let_def split: prod.splits sum.splits option.splits)
qed

lemma wf_initial: "store_wf empty_store" "registry_wf empty_registry"
  by (simp_all add: store_wf_def empty_store_def registry_wf_def empty_registry_def)

lemma S3_wf: "store_wf S3_store" "registry_wf S3_registry"
  by (simp_all add: store_wf_def registry_wf_def S3_registry_value S3_defs S1_defs)

text \<open>
  C7. Let the store and the registry be well formed, let \<open>save\<close> write a snapshot of them
  to the path \<open>p\<close> and let \<open>load\<close> read \<open>p\<close> back. Then \<open>load\<close> returns normally; the listing
  of libraries, and for every library the listings of its documents and of its chunks,
  equal the listings before the save, record by record as Python compares records (the
  reloaded metadata dicts hold the same items, their keys in sorted order); and every
  library that had an index before has an index afterwards with the same algorithm and
  metric, recorded in the registry's metadata.
\<close>

theorem snapshot_roundtrip:
  assumes "store_wf s" "registry_wf reg"
    and "SnapshotService_save env s reg fs path stamp iso_now = (p, fs')"
    and "SnapshotService_load env s reg fs' (Some p) = (res, s', reg')"
  shows "res = Inr () \<and>
     list_all2 library_eq (repo_list_libraries s') (repo_list_libraries s) \<and>
     (\<forall>lib. list_all2 document_eq (repo_list_documents s' lib) (repo_list_documents s lib) \<and>
            list_all2 chunk_eq (repo_list_chunks s' lib) (repo_list_chunks s lib)) \<and>
     (\<forall>lib idx. map_of (indices reg) lib = Some idx \<longrightarrow>
        (\<exists>idx'. map_of (indices reg') lib = Some idx' \<and>
           index_kind idx' = index_kind idx \<and> index_metric idx' = index_metric idx) \<and>
        map_of (index_metas reg') lib =
          Some \<lparr>algorithm = index_kind idx, metric = index_metric idx\<rparr>)"
proof -
  from load_after_save [OF assms(1,2), of env fs path stamp iso_now] assms(3,4)
  have r: "res = Inr ()"
    and t: "libraries s' = map canon_library (libraries s)"
      "documents s' = map canon_document (documents s)"
      "chunks s' = map canon_chunk (chunks s)"
    and k: "keeps_indices reg reg'"
    by auto
  have m: "map_of (index_metas reg) lib =
      Some \<lparr>algorithm = index_kind idx, metric = index_metric idx\<rparr>"
    if "map_of (indices reg) lib = Some idx" for lib idx
    using assms(2) that unfolding registry_wf_iff by blast
  show ?thesis
    using r k m list_all2_canon listings_canon [OF t]
    by (simp add: keeps_indices_def)
qed

theorem snapshot_roundtrip_witness:
  "store_wf S3_store \<and> registry_wf S3_registry \<and>
   map_of (indices S3_registry) ''L'' \<noteq> None \<and>
   (case SnapshotService_save example_env S3_store S3_registry (\<lambda>p. None) None
           ''20260101_120000'' ''2026-01-01T12:00:00'' of
      (p, fs') \<Rightarrow>
        (case SnapshotService_load example_env S3_store S3_registry fs' (Some p) of
           (res, s', reg') \<Rightarrow>
             res = Inr () \<and>
             list_all2 library_eq (repo_list_libraries s') (repo_list_libraries S3_store) \<and>
             list_all2 document_eq (repo_list_documents s' ''L'')
               (repo_list_documents S3_store ''L'') \<and>
             list_all2 chunk_eq (repo_list_chunks s' ''L'') (repo_list_chunks S3_store ''L'') \<and>
             map_of (index_metas reg') ''L'' =
               Some \<lparr>algorithm = ''linear'', metric = ''cosine''\<rparr>))"
proof -
  obtain p fs' where sv: "SnapshotService_save example_env S3_store S3_registry (\<lambda>p. None) None
           ''20260101_120000'' ''2026-01-01T12:00:00'' = (p, fs')"
    by (cases "SnapshotService_save example_env S3_store S3_registry (\<lambda>p. None) None
           ''20260101_120000'' ''2026-01-01T12:00:00''")
  obtain res s' reg' where
    ld: "SnapshotService_load example_env S3_store S3_registry fs' (Some p) = (res, s', reg')"
    by (cases "SnapshotService_load example_env S3_store S3_registry fs' (Some p)")
  have i: "map_of (indices S3_registry) ''L'' = Some (Linear \<lparr>lin_metric = ''cosine'',
          lin_vectors = [[0, 1, 0], [1, 0, 0], [0, 1, 0], [0, 0, 1]],
          lin_ids = [''C1'', ''C2'', ''C3'', ''C4'']\<rparr>)"
    by (simp add: S3_registry_value)
  from snapshot_roundtrip [OF S3_wf sv ld] i
  show ?thesis using S3_wf sv ld by simp
qed

subsection \<open>KD-tree: distances along an axis, and what build\_kd builds\<close>







subsection \<open>KD-tree: the bounded heap and the query\<close>








lemma heap_items_simps [simp]:
  "heap_items target [] = []"
  "heap_items target (q # qs) = (- euclidean_distance target (fst q), snd q) # heap_items target qs"
  "heap_items target (xs @ ys) = heap_items target xs @ heap_items target ys"
  by (simp_all add: heap_items_def)



subsection \<open>KD-tree against the brute-force scan\<close>

lemma linear_euclidean_is_brute_force:
  assumes "vectors \<noteq> []" "0 < k" "length q = length (hd vectors)"
  shows "LinearIndex_query \<lparr>lin_metric = ''euclidean'', lin_vectors = vectors, lin_ids = ids\<rparr> q k
           = Inr (brute_force_euclidean vectors ids q k)"
  using assms
  by (simp add: LinearIndex_query_def validate_query_dim_def brute_force_euclidean_def Let_def)









lemma to_score_lambda: "(\<lambda>(d, pid). (pid, 1 / (1 + (- d)))) = to_score"
  by (rule ext) (simp add: to_score_def split: prod.splits)
















subsection \<open>C1: the KD-tree query against the brute-force Euclidean top-k\<close>




subsection \<open>The query contract of each index\<close>




lemma length_take_nat: "0 < k \<Longrightarrow> int (length (take (nat k) xs)) \<le> max 0 k"
  by simp










subsection \<open>C2: the query contract of the three indexes\<close>




end
